theory Spec2Isabelle
  imports Main "HOL-Library.Word"
begin

section \<open>Python values after \<open>json.load\<close>\<close>

text \<open>
  The script \<open>scripts/convert-pack-format.py\<close> works on the value that \<open>json.load\<close>
  returns: \<open>None\<close>, \<open>bool\<close>, \<open>int\<close>, \<open>float\<close>, \<open>str\<close>, \<open>list\<close> and \<open>dict\<close>.
  A \<open>dict\<close> keeps its insertion order, so it is an association list; its keys are
  strings. A \<open>float\<close> is carried as its 64 bits. A \<open>str\<close> is held as its UTF-8 bytes;
  a lone surrogate, which \<open>json.load\<close> accepts from an escape such as \<open>\ud800\<close>, is
  held as the three bytes that the \<open>surrogatepass\<close> handler gives it.
\<close>

datatype pyval =
    PyNone
  | PyBool bool
  | PyInt int
  | PyFloat "64 word"
  | PyStr string
  | PyList "pyval list"
  | PyDict "(string \<times> pyval) list"

text \<open>The exceptions the script can end with; \<open>sys.exit(n)\<close> raises \<open>SystemExit n\<close>.\<close>

datatype exn =
    SystemExit int
  | TypeError
  | AttributeError
  | KeyError
  | FileNotFoundError
  | IsADirectoryError
  | PermissionError
  | JSONDecodeError
  | UnicodeEncodeError

definition ebind :: "exn + 'a \<Rightarrow> ('a \<Rightarrow> exn + 'b) \<Rightarrow> exn + 'b" where
  "ebind m f = (case m of Inl e \<Rightarrow> Inl e | Inr x \<Rightarrow> f x)"

subsection \<open>The built-in operations the script uses\<close>

text \<open>\<open>isinstance(v, dict)\<close>.\<close>

fun isinstance_dict :: "pyval \<Rightarrow> bool" where
  "isinstance_dict (PyDict d) = True"
| "isinstance_dict v = False"

text \<open>Truth value of a value, as \<open>not v\<close> tests it; both float zeros are false.\<close>

fun py_truthy :: "pyval \<Rightarrow> bool" where
  "py_truthy PyNone = False"
| "py_truthy (PyBool b) = b"
| "py_truthy (PyInt i) = (i \<noteq> 0)"
| "py_truthy (PyFloat x) = (x \<noteq> 0 \<and> x \<noteq> 0x8000000000000000)"
| "py_truthy (PyStr s) = (s \<noteq> [])"
| "py_truthy (PyList xs) = (xs \<noteq> [])"
| "py_truthy (PyDict d) = (d \<noteq> [])"

text \<open>\<open>s.startswith(p)\<close> and the substring test \<open>sub in s\<close> of \<open>str\<close>.\<close>

fun startswith :: "string \<Rightarrow> string \<Rightarrow> bool" where
  "startswith s [] = True"
| "startswith [] (p # ps) = False"
| "startswith (c # cs) (p # ps) = (c = p \<and> startswith cs ps)"

fun str_contains :: "string \<Rightarrow> string \<Rightarrow> bool" where
  "str_contains sub [] = (sub = [])"
| "str_contains sub (c # cs) = (startswith (c # cs) sub \<or> str_contains sub cs)"

text \<open>
  \<open>key in v\<close> for a string \<open>key\<close>: key membership on a dict, element membership on a
  list (a string equals only a string), substring test on a string; every other value
  is not iterable and raises \<open>TypeError\<close>.
\<close>

fun py_contains :: "string \<Rightarrow> pyval \<Rightarrow> exn + bool" where
  "py_contains key (PyDict d) = Inr (key \<in> set (map fst d))"
| "py_contains key (PyList xs) = Inr (PyStr key \<in> set xs)"
| "py_contains key (PyStr s) = Inr (str_contains key s)"
| "py_contains key v = Inl TypeError"

text \<open>
  \<open>v[key]\<close> for a string \<open>key\<close>: lookup on a dict (\<open>KeyError\<close> when missing); a list
  or a string indexed by a string, and a value that is not subscriptable, raise
  \<open>TypeError\<close>.
\<close>

fun py_getitem :: "pyval \<Rightarrow> string \<Rightarrow> exn + pyval" where
  "py_getitem (PyDict d) key = (case map_of d key of None \<Rightarrow> Inl KeyError | Some v \<Rightarrow> Inr v)"
| "py_getitem v key = Inl TypeError"

text \<open>
  \<open>d[key] = v\<close> on a dict: an existing key keeps its position and takes the new value,
  a new key goes to the end.
\<close>

fun dict_set :: "string \<Rightarrow> pyval \<Rightarrow> (string \<times> pyval) list \<Rightarrow> (string \<times> pyval) list" where
  "dict_set key v [] = [(key, v)]"
| "dict_set key v ((k, x) # d) = (if k = key then (key, v) # d else (k, x) # dict_set key v d)"

text \<open>\<open>v[key] = x\<close> with a string key: only a dict accepts it.\<close>

fun py_setitem :: "pyval \<Rightarrow> string \<Rightarrow> pyval \<Rightarrow> exn + pyval" where
  "py_setitem (PyDict d) key x = Inr (PyDict (dict_set key x d))"
| "py_setitem v key x = Inl TypeError"

text \<open>\<open>v.get(key, default)\<close> and \<open>v.items()\<close>: only a dict has these attributes.\<close>

fun py_get :: "pyval \<Rightarrow> string \<Rightarrow> pyval \<Rightarrow> exn + pyval" where
  "py_get (PyDict d) key dflt = Inr (case map_of d key of None \<Rightarrow> dflt | Some v \<Rightarrow> v)"
| "py_get v key dflt = Inl AttributeError"

fun py_items :: "pyval \<Rightarrow> exn + (string \<times> pyval) list" where
  "py_items (PyDict d) = Inr d"
| "py_items v = Inl AttributeError"

text \<open>
  \<open>len(v)\<close>: entries of a dict, elements of a list, code points of a string (the bytes
  that are not UTF-8 continuation bytes); the other values have no length.
\<close>

fun py_len :: "pyval \<Rightarrow> exn + nat" where
  "py_len (PyDict d) = Inr (length d)"
| "py_len (PyList xs) = Inr (length xs)"
| "py_len (PyStr s) = Inr (length (filter (\<lambda>c. (of_char c :: nat) div 64 \<noteq> 2) s))"
| "py_len v = Inl TypeError"

section \<open>The two schema conversions\<close>

text \<open>
  One \<open>if key in schema: new_schema[key] = schema[key]\<close> statement of the loop bodies.
\<close>

definition copy_if_present ::
  "string \<Rightarrow> pyval \<Rightarrow> (string \<times> pyval) list \<Rightarrow> exn + (string \<times> pyval) list" where
  "copy_if_present key schema new_schema =
     ebind (py_contains key schema) (\<lambda>present.
       if present
       then ebind (py_getitem schema key) (\<lambda>v. Inr (dict_set key v new_schema))
       else Inr new_schema)"

text \<open>The body of the loop of \<open>convert_object_schemas\<close> (lines 24 to 34).\<close>

definition object_entry :: "string \<Rightarrow> pyval \<Rightarrow> exn + pyval" where
  "object_entry name schema =
     ebind (copy_if_present ''label'' schema [(''name'', PyStr name)]) (\<lambda>new_schema.
     ebind (copy_if_present ''description'' schema new_schema) (\<lambda>new_schema.
     ebind (copy_if_present ''properties'' schema new_schema) (\<lambda>new_schema.
     Inr (PyDict new_schema))))"

text \<open>The loop over \<open>old_schemas.items()\<close>, appending to \<open>result\<close>.\<close>

fun object_loop :: "(string \<times> pyval) list \<Rightarrow> pyval list \<Rightarrow> exn + pyval list" where
  "object_loop [] result = Inr result"
| "object_loop ((name, schema) # rest) result =
     ebind (object_entry name schema) (\<lambda>new_schema. object_loop rest (result @ [new_schema]))"

definition convert_object_schemas :: "pyval \<Rightarrow> exn + pyval" where
  "convert_object_schemas old_schemas =
     (if \<not> py_truthy old_schemas then Inr (PyList [])
      else ebind (py_items old_schemas) (\<lambda>items.
           ebind (object_loop items []) (\<lambda>result. Inr (PyList result))))"

text \<open>The body of the loop of \<open>convert_relationship_schemas\<close> (lines 48 to 60).\<close>

definition relationship_entry :: "string \<Rightarrow> pyval \<Rightarrow> exn + pyval" where
  "relationship_entry name schema =
     ebind (copy_if_present ''label'' schema [(''name'', PyStr name)]) (\<lambda>new_schema.
     ebind (copy_if_present ''description'' schema new_schema) (\<lambda>new_schema.
     ebind (copy_if_present ''sourceTypes'' schema new_schema) (\<lambda>new_schema.
     ebind (copy_if_present ''targetTypes'' schema new_schema) (\<lambda>new_schema.
     Inr (PyDict new_schema)))))"

fun relationship_loop :: "(string \<times> pyval) list \<Rightarrow> pyval list \<Rightarrow> exn + pyval list" where
  "relationship_loop [] result = Inr result"
| "relationship_loop ((name, schema) # rest) result =
     ebind (relationship_entry name schema)
       (\<lambda>new_schema. relationship_loop rest (result @ [new_schema]))"

definition convert_relationship_schemas :: "pyval \<Rightarrow> exn + pyval" where
  "convert_relationship_schemas old_schemas =
     (if \<not> py_truthy old_schemas then Inr (PyList [])
      else ebind (py_items old_schemas) (\<lambda>items.
           ebind (relationship_loop items []) (\<lambda>result. Inr (PyList result))))"

section \<open>Files, paths and output\<close>

text \<open>
  A \<open>pathlib\<close> path of the POSIX flavour: the root (empty, \<open>/\<close> or \<open>//\<close>) and the
  components after it. \<open>split_slash\<close> is \<open>str.split('/')\<close>; \<open>Path\<close> parses a string as
  the constructor does, dropping empty and \<open>.\<close> components; exactly two leading slashes
  are kept as a root of their own.
\<close>

record path =
  path_root :: string
  path_parts :: "string list"

fun split_slash :: "string \<Rightarrow> string list" where
  "split_slash [] = [[]]"
| "split_slash (c # cs) =
     (if c = CHR ''/'' then [] # split_slash cs
      else (case split_slash cs of [] \<Rightarrow> [[c]] | x # xs \<Rightarrow> (c # x) # xs))"

definition splitroot :: "string \<Rightarrow> string \<times> string" where
  "splitroot part =
     (if part \<noteq> [] \<and> hd part = CHR ''/'' then
        (let stripped_part = dropWhile (\<lambda>c. c = CHR ''/'') part in
         if length part - length stripped_part = 2 then (''//'', stripped_part)
         else (''/'', stripped_part))
      else ([], part))"

definition Path :: "string \<Rightarrow> path" where
  "Path s =
     (case splitroot s of (r, rel) \<Rightarrow>
        \<lparr>path_root = r, path_parts = filter (\<lambda>x. x \<noteq> [] \<and> x \<noteq> ''.'') (split_slash rel)\<rparr>)"

text \<open>\<open>p.name\<close>, \<open>p.parent\<close> and \<open>p / s\<close> (a rooted right operand replaces the left one).\<close>

definition path_name :: "path \<Rightarrow> string" where
  "path_name p = (if path_parts p = [] then [] else last (path_parts p))"

definition path_parent :: "path \<Rightarrow> path" where
  "path_parent p = p\<lparr>path_parts := butlast (path_parts p)\<rparr>"

definition path_div :: "path \<Rightarrow> string \<Rightarrow> path" where
  "path_div p s =
     (let q = Path s in
      if path_root q \<noteq> [] then q
      else \<lparr>path_root = path_root p, path_parts = path_parts p @ path_parts q\<rparr>)"

text \<open>
  \<open>s.rfind(c)\<close>, and \<open>p.stem\<close> and \<open>p.suffix\<close> as \<open>pathlib\<close> computes them from it
  (CPython 3.8 to 3.13): the name is cut at its last dot unless that dot is the first or
  the last character.
\<close>

definition rfind :: "string \<Rightarrow> char \<Rightarrow> int" where
  "rfind s c =
     (if c \<in> set s then int (length s) - 1 - int (length (takeWhile (\<lambda>x. x \<noteq> c) (rev s)))
      else - 1)"

definition path_stem :: "path \<Rightarrow> string" where
  "path_stem p =
     (let name = path_name p; i = rfind name (CHR ''.'') in
      if 0 < i \<and> i < int (length name) - 1 then take (nat i) name else name)"

definition path_suffix :: "path \<Rightarrow> string" where
  "path_suffix p =
     (let name = path_name p; i = rfind name (CHR ''.'') in
      if 0 < i \<and> i < int (length name) - 1 then drop (nat i) name else [])"

text \<open>
  What a path can hold: a file whose content \<open>json.load\<close> parses to a value, a file it
  rejects, or a directory. The serialised text is not modelled: a written file holds the
  value that was dumped. Two paths name the same file only when they are equal.
\<close>

datatype node = JsonDoc pyval | NotJson | Directory

text \<open>
  A printed line is an f-string: literal text and formatted values, kept apart (the
  text that \<open>str()\<close> gives a value is not modelled).
\<close>

datatype frag = Lit string | Val pyval | Num nat | PathF path

text \<open>
  The world outside the process: the files, which paths \<open>open(p, 'w')\<close> may create or
  truncate, the exception that \<open>open(p, 'w')\<close> raises on a path where it may not
  (\<open>FileNotFoundError\<close> when the parent directory is missing, \<open>PermissionError\<close>, ...),
  and the lines printed so far.
\<close>

record world =
  files :: "path \<Rightarrow> node option"
  writable :: "path \<Rightarrow> bool"
  write_error :: "path \<Rightarrow> exn"
  stdout :: "frag list list"

type_synonym 'a io = "world \<Rightarrow> (exn + 'a) \<times> world"

definition io_return :: "'a \<Rightarrow> 'a io" where
  "io_return x w = (Inr x, w)"

definition io_raise :: "exn \<Rightarrow> 'a io" where
  "io_raise e w = (Inl e, w)"

definition io_lift :: "exn + 'a \<Rightarrow> 'a io" where
  "io_lift r w = (r, w)"

definition io_bind :: "'a io \<Rightarrow> ('a \<Rightarrow> 'b io) \<Rightarrow> 'b io" where
  "io_bind m f w = (case m w of (Inl e, w') \<Rightarrow> (Inl e, w') | (Inr x, w') \<Rightarrow> f x w')"

text \<open>
  Standard output encodes as UTF-8 with the \<open>surrogateescape\<close> handler. Its encoder
  rejects a lone surrogate other than U+DC80 to U+DCFF, that is, in the bytes held, \<open>ED\<close>
  followed by a byte from \<open>A0\<close> to \<open>BF\<close> other than \<open>B2\<close> and \<open>B3\<close>.
\<close>

fun unencodable :: "string \<Rightarrow> bool" where
  "unencodable (c # d # cs) =
     ((c = CHR 0xED \<and> (0xA0 :: nat) \<le> of_char d \<and> (of_char d :: nat) \<le> 0xBF \<and>
       d \<noteq> CHR 0xB2 \<and> d \<noteq> CHR 0xB3) \<or>
      unencodable (d # cs))"
| "unencodable cs = False"

text \<open>
  Which formatted values \<open>print\<close> can write. Only a string value is written as it is.
  The text of any other value is a number, a keyword or a \<open>repr\<close>, which escapes
  surrogates; the literals of the script are ASCII but for the check mark; a path comes
  from \<open>sys.argv\<close>, whose only surrogates are the escaped bytes U+DC80 to U+DCFF.
\<close>

fun encodable :: "frag \<Rightarrow> bool" where
  "encodable (Val (PyStr s)) = (\<not> unencodable s)"
| "encodable f = True"

text \<open>\<open>print(line)\<close>: raises \<open>UnicodeEncodeError\<close>, printing nothing, when it cannot encode.\<close>

definition py_print :: "frag list \<Rightarrow> unit io" where
  "py_print line w =
     (if list_all encodable line then (Inr (), w\<lparr>stdout := stdout w @ [line]\<rparr>)
      else (Inl UnicodeEncodeError, w))"

text \<open>\<open>p.exists()\<close>; \<open>open(p, 'r')\<close> with \<open>json.load\<close>; \<open>open(p, 'w')\<close> with \<open>json.dump\<close>.\<close>

definition path_exists :: "path \<Rightarrow> bool io" where
  "path_exists p w = (Inr (files w p \<noteq> None), w)"

definition json_load :: "path \<Rightarrow> pyval io" where
  "json_load p w =
     (case files w p of
        None \<Rightarrow> (Inl FileNotFoundError, w)
      | Some Directory \<Rightarrow> (Inl IsADirectoryError, w)
      | Some NotJson \<Rightarrow> (Inl JSONDecodeError, w)
      | Some (JsonDoc v) \<Rightarrow> (Inr v, w))"

definition json_dump :: "pyval \<Rightarrow> path \<Rightarrow> unit io" where
  "json_dump v p w =
     (if files w p = Some Directory then (Inl IsADirectoryError, w)
      else if \<not> writable w p then (Inl (write_error w p), w)
      else (Inr (), w\<lparr>files := (files w)(p \<mapsto> JsonDoc v)\<rparr>))"

section \<open>\<open>convert_pack\<close>\<close>

text \<open>Lines 73 to 79: the inspection and replacement of \<open>object_type_schemas\<close>.\<close>

definition convert_object_field :: "pyval \<Rightarrow> pyval io" where
  "convert_object_field pack =
     io_bind (py_print [Lit ''Converting object_type_schemas...'']) (\<lambda>_.
     io_bind (io_lift (py_get pack ''object_type_schemas'' (PyDict []))) (\<lambda>old_obj_schemas.
     if isinstance_dict old_obj_schemas then
       io_bind (io_lift (convert_object_schemas old_obj_schemas)) (\<lambda>converted.
       io_bind (io_lift (py_setitem pack ''object_type_schemas'' converted)) (\<lambda>pack.
       io_bind (io_lift (ebind (py_getitem pack ''object_type_schemas'') py_len)) (\<lambda>n.
       io_bind (py_print [Lit ''  Converted '', Num n, Lit '' object types'']) (\<lambda>_.
       io_return pack))))
     else
       io_bind (py_print [Lit ''  Already in array format, skipping'']) (\<lambda>_.
       io_return pack)))"

text \<open>Lines 81 to 87: the same for \<open>relationship_type_schemas\<close>.\<close>

definition convert_relationship_field :: "pyval \<Rightarrow> pyval io" where
  "convert_relationship_field pack =
     io_bind (py_print [Lit ''Converting relationship_type_schemas...'']) (\<lambda>_.
     io_bind (io_lift (py_get pack ''relationship_type_schemas'' (PyDict []))) (\<lambda>old_rel_schemas.
     if isinstance_dict old_rel_schemas then
       io_bind (io_lift (convert_relationship_schemas old_rel_schemas)) (\<lambda>converted.
       io_bind (io_lift (py_setitem pack ''relationship_type_schemas'' converted)) (\<lambda>pack.
       io_bind (io_lift (ebind (py_getitem pack ''relationship_type_schemas'') py_len)) (\<lambda>n.
       io_bind (py_print [Lit ''  Converted '', Num n, Lit '' relationship types'']) (\<lambda>_.
       io_return pack))))
     else
       io_bind (py_print [Lit ''  Already in array format, skipping'']) (\<lambda>_.
       io_return pack)))"

text \<open>The check mark of the last line, as its three UTF-8 bytes.\<close>

definition check_mark :: string where
  "check_mark = [CHR 0xE2, CHR 0x9C, CHR 0x93]"

definition convert_pack :: "path \<Rightarrow> path \<Rightarrow> pyval io" where
  "convert_pack input_path output_path =
     io_bind (py_print [Lit ''Reading '', PathF input_path, Lit ''...'']) (\<lambda>_.
     io_bind (json_load input_path) (\<lambda>pack.
     io_bind (convert_object_field pack) (\<lambda>pack.
     io_bind (convert_relationship_field pack) (\<lambda>pack.
     io_bind (py_print [Lit ''Writing '', PathF output_path, Lit ''...'']) (\<lambda>_.
     io_bind (json_dump pack output_path) (\<lambda>_.
     io_bind (py_print [Lit (check_mark @ '' Conversion complete'')]) (\<lambda>_.
     io_return pack)))))))"

section \<open>\<open>main\<close>\<close>

text \<open>Line 106: the output path when the command line gives none.\<close>

definition default_output_path :: "path \<Rightarrow> path" where
  "default_output_path input_path =
     path_div (path_parent input_path) (path_stem input_path @ ''-converted.json'')"

text \<open>Lines 114 to 119: the summary printed from the converted pack.\<close>

definition validation :: "pyval \<Rightarrow> unit io" where
  "validation converted =
     io_bind (py_print [Lit (CHR 0x0A # ''Validation:'')]) (\<lambda>_.
     io_bind (io_lift (py_getitem converted ''name'')) (\<lambda>name.
     io_bind (py_print [Lit ''  Name: '', Val name]) (\<lambda>_.
     io_bind (io_lift (py_getitem converted ''version'')) (\<lambda>version.
     io_bind (py_print [Lit ''  Version: '', Val version]) (\<lambda>_.
     io_bind (io_lift (ebind (py_getitem converted ''object_type_schemas'') py_len)) (\<lambda>n.
     io_bind (py_print [Lit ''  Object types: '', Num n]) (\<lambda>_.
     io_bind (io_lift (ebind (py_getitem converted ''relationship_type_schemas'') py_len)) (\<lambda>m.
     py_print [Lit ''  Relationship types: '', Num m]))))))))"

text \<open>\<open>argv\<close> is \<open>sys.argv\<close>: the script's name, then the arguments.\<close>

definition main :: "string list \<Rightarrow> unit io" where
  "main argv =
     (if length argv < 2 then
        io_bind (py_print [Lit ''Usage: convert-pack-format.py <input.json> [output.json]''])
          (\<lambda>_. io_raise (SystemExit 1))
      else
        let input_path = Path (argv ! 1);
            output_path = (if length argv > 2 then Path (argv ! 2)
                           else default_output_path input_path)
        in io_bind (path_exists input_path) (\<lambda>found.
           if \<not> found then
             io_bind (py_print [Lit ''Error: '', PathF input_path, Lit '' not found''])
               (\<lambda>_. io_raise (SystemExit 1))
           else
             io_bind (convert_pack input_path output_path) validation))"

text \<open>
  The status the process ends with: 0 when \<open>main\<close> returns, the argument of
  \<open>sys.exit\<close>, and 1 for an exception nobody catches.
\<close>

fun exit_status :: "exn + unit \<Rightarrow> int" where
  "exit_status (Inr u) = 0"
| "exit_status (Inl (SystemExit n)) = n mod 256"
| "exit_status (Inl e) = 1"

section \<open>Example inputs\<close>

text \<open>
  Two paths and a world that holds one document at \<open>in.json\<close>, where every path may be
  written and nothing has been printed.
\<close>

definition in_json :: path where
  "in_json = \<lparr>path_root = [], path_parts = [''in.json'']\<rparr>"

definition out_json :: path where
  "out_json = \<lparr>path_root = [], path_parts = [''out.json'']\<rparr>"

definition world_with :: "pyval \<Rightarrow> world" where
  "world_with doc =
     \<lparr>files = [in_json \<mapsto> JsonDoc doc], writable = (\<lambda>p. True),
      write_error = (\<lambda>p. FileNotFoundError), stdout = []\<rparr>"

section \<open>Properties of the conversions\<close>

subsection \<open>The substring test\<close>

lemma startswith_iff: "startswith s p \<longleftrightarrow> (\<exists>q. s = p @ q)"
  by (induction s p rule: startswith.induct) auto

lemma str_contains_iff: "str_contains sub s \<longleftrightarrow> (\<exists>p q. s = p @ sub @ q)"
proof (induction s)
  case Nil
  then show ?case by auto
next
  case (Cons c cs)
  show ?case
  proof
    assume "str_contains sub (c # cs)"
    then consider "startswith (c # cs) sub" | "str_contains sub cs" by auto
    then show "\<exists>p q. c # cs = p @ sub @ q"
    proof cases
      case 1
      then obtain q where "c # cs = sub @ q" by (auto simp add: startswith_iff)
      then have "c # cs = [] @ sub @ q" by simp
      then show ?thesis by blast
    next
      case 2
      with Cons.IH obtain p q where "cs = p @ sub @ q" by auto
      then have "c # cs = (c # p) @ sub @ q" by simp
      then show ?thesis by blast
    qed
  next
    assume "\<exists>p q. c # cs = p @ sub @ q"
    then obtain p q where e: "c # cs = p @ sub @ q" by auto
    show "str_contains sub (c # cs)"
    proof (cases p)
      case Nil
      with e have "startswith (c # cs) sub" by (auto simp add: startswith_iff)
      then show ?thesis by simp
    next
      case (Cons a p')
      with e have "cs = p' @ sub @ q" by simp
      with Cons.IH have "str_contains sub cs" by blast
      then show ?thesis by simp
    qed
  qed
qed

subsection \<open>Dictionary updates and one copied field\<close>

lemma map_of_dict_set: "map_of (dict_set key v d) k = (if k = key then Some v else map_of d k)"
  by (induction key v d rule: dict_set.induct) auto

lemma keys_dict_set:
  "map fst (dict_set key v d) = (if key \<in> set (map fst d) then map fst d else map fst d @ [key])"
  by (induction key v d rule: dict_set.induct) auto

lemma copy_if_present_dict:
  "copy_if_present key (PyDict s) new_schema =
     Inr (case map_of s key of None \<Rightarrow> new_schema | Some v \<Rightarrow> dict_set key v new_schema)"
proof (cases "map_of s key")
  case None
  then have "key \<notin> set (map fst s)" by (simp add: map_of_eq_None_iff)
  with None show ?thesis by (simp add: copy_if_present_def ebind_def)
next
  case (Some v)
  then have "key \<in> set (map fst s)" by (metis map_of_eq_None_iff option.distinct(1) set_map)
  with Some show ?thesis by (simp add: copy_if_present_def ebind_def)
qed

lemma copy_if_present_nondict:
  "\<not> isinstance_dict v \<Longrightarrow>
   copy_if_present key v new_schema =
     (if py_contains key v = Inr False then Inr new_schema else Inl TypeError)"
  by (cases v) (simp_all add: copy_if_present_def ebind_def)

lemma object_loop_Inr:
  "object_loop items acc = Inr out \<longleftrightarrow>
   (\<exists>rs. out = acc @ rs \<and> list_all2 (\<lambda>(k, v) r. object_entry k v = Inr r) items rs)"
proof (induction items arbitrary: acc)
  case Nil
  then show ?case by auto
next
  case (Cons a items)
  obtain k v where a: "a = (k, v)" by (cases a)
  show ?case
  proof (cases "object_entry k v")
    case (Inl e)
    then show ?thesis by (simp add: a ebind_def list_all2_Cons1)
  next
    case (Inr r)
    then show ?thesis
      by (auto simp add: a ebind_def Cons.IH list_all2_Cons1)
  qed
qed



lemma copy_step:
  assumes keys: "map fst e = ''name'' # filter (\<lambda>f. map_of s f \<noteq> None) fs"
    and name: "map_of e ''name'' = Some (PyStr k)"
    and vals: "\<forall>f \<in> set fs. map_of e f = map_of s f"
    and fresh: "key \<notin> set fs" "key \<noteq> ''name''"
  shows "\<exists>e'. copy_if_present key (PyDict s) e = Inr e' \<and>
           map fst e' = ''name'' # filter (\<lambda>f. map_of s f \<noteq> None) (fs @ [key]) \<and>
           map_of e' ''name'' = Some (PyStr k) \<and>
           (\<forall>f \<in> set (fs @ [key]). map_of e' f = map_of s f)"
proof -
  from keys fresh have notin: "key \<notin> set (map fst e)" by auto
  then have none: "map_of e key = None" by (simp add: map_of_eq_None_iff)
  show ?thesis
  proof (cases "map_of s key")
    case None
    with keys name vals none show ?thesis
      by (simp add: copy_if_present_dict)
  next
    case (Some v)
    have k1: "map fst (dict_set key v e) = map fst e @ [key]"
      using notin by (simp add: keys_dict_set)
    have k2: "\<forall>f \<in> set fs. map_of (dict_set key v e) f = map_of s f"
      using vals fresh by (auto simp add: map_of_dict_set)
    show ?thesis
      using Some keys name fresh k1 k2
      by (simp add: copy_if_present_dict map_of_dict_set)
  qed
qed

lemma keys_filter_conv:
  "filter (\<lambda>f. map_of s f \<noteq> None) fs = filter (\<lambda>f. f \<in> set (map fst s)) fs"
  by (simp add: map_of_eq_None_iff)

lemma object_entry_dict:
  "\<exists>e. object_entry k (PyDict s) = Inr (PyDict e) \<and>
       map fst e = ''name'' # filter (\<lambda>f. f \<in> set (map fst s)) [''label'', ''description'', ''properties''] \<and>
       map_of e ''name'' = Some (PyStr k) \<and>
       (\<forall>f \<in> set [''label'', ''description'', ''properties'']. map_of e f = map_of s f)"
proof -
  let ?e0 = "[(''name'', PyStr k)]"
  have "map fst ?e0 = ''name'' # filter (\<lambda>f. map_of s f \<noteq> None) []"
    "map_of ?e0 ''name'' = Some (PyStr k)" "\<forall>f \<in> set []. map_of ?e0 f = map_of s f"
    by simp_all
  from copy_step [OF this, of "''label''"] obtain e1 where
    c1: "copy_if_present ''label'' (PyDict s) ?e0 = Inr e1" and
    p1: "map fst e1 = ''name'' # filter (\<lambda>f. map_of s f \<noteq> None) ([] @ [''label''])"
      "map_of e1 ''name'' = Some (PyStr k)"
      "\<forall>f \<in> set ([] @ [''label'']). map_of e1 f = map_of s f"
    by auto
  from copy_step [OF p1, of "''description''"] obtain e2 where
    c2: "copy_if_present ''description'' (PyDict s) e1 = Inr e2" and
    p2: "map fst e2 = ''name'' # filter (\<lambda>f. map_of s f \<noteq> None) (([] @ [''label'']) @ [''description''])"
      "map_of e2 ''name'' = Some (PyStr k)"
      "\<forall>f \<in> set (([] @ [''label'']) @ [''description'']). map_of e2 f = map_of s f"
    by auto
  from copy_step [OF p2, of "''properties''"] obtain e3 where
    c3: "copy_if_present ''properties'' (PyDict s) e2 = Inr e3" and
    p3: "map fst e3 = ''name'' # filter (\<lambda>f. map_of s f \<noteq> None)
           ((([] @ [''label'']) @ [''description'']) @ [''properties''])"
      "map_of e3 ''name'' = Some (PyStr k)"
      "\<forall>f \<in> set ((([] @ [''label'']) @ [''description'']) @ [''properties'']). map_of e3 f = map_of s f"
    by auto
  have "object_entry k (PyDict s) = Inr (PyDict e3)"
    by (simp add: object_entry_def c1 c2 c3 ebind_def)
  moreover have "map fst e3 = ''name'' # filter (\<lambda>f. f \<in> set (map fst s)) [''label'', ''description'', ''properties'']"
    using p3(1) unfolding keys_filter_conv by simp
  moreover have "\<forall>f \<in> set [''label'', ''description'', ''properties'']. map_of e3 f = map_of s f"
    using p3(3) by simp
  ultimately show ?thesis using p3(2)
    by - (rule exI [of _ e3], intro conjI, assumption+)
qed

subsection \<open>One entry and the loops\<close>

lemma relationship_entry_dict:
  "\<exists>e. relationship_entry k (PyDict s) = Inr (PyDict e) \<and>
       map fst e = ''name'' # filter (\<lambda>f. f \<in> set (map fst s))
          [''label'', ''description'', ''sourceTypes'', ''targetTypes''] \<and>
       map_of e ''name'' = Some (PyStr k) \<and>
       (\<forall>f \<in> set [''label'', ''description'', ''sourceTypes'', ''targetTypes'']. map_of e f = map_of s f)"
proof -
  let ?e0 = "[(''name'', PyStr k)]"
  have "map fst ?e0 = ''name'' # filter (\<lambda>f. map_of s f \<noteq> None) []"
    "map_of ?e0 ''name'' = Some (PyStr k)" "\<forall>f \<in> set []. map_of ?e0 f = map_of s f"
    by simp_all
  from copy_step [OF this, of "''label''"] obtain e1 where
    c1: "copy_if_present ''label'' (PyDict s) ?e0 = Inr e1" and
    p1: "map fst e1 = ''name'' # filter (\<lambda>f. map_of s f \<noteq> None) ([] @ [''label''])"
      "map_of e1 ''name'' = Some (PyStr k)"
      "\<forall>f \<in> set ([] @ [''label'']). map_of e1 f = map_of s f"
    by auto
  from copy_step [OF p1, of "''description''"] obtain e2 where
    c2: "copy_if_present ''description'' (PyDict s) e1 = Inr e2" and
    p2: "map fst e2 = ''name'' # filter (\<lambda>f. map_of s f \<noteq> None) (([] @ [''label'']) @ [''description''])"
      "map_of e2 ''name'' = Some (PyStr k)"
      "\<forall>f \<in> set (([] @ [''label'']) @ [''description'']). map_of e2 f = map_of s f"
    by auto
  from copy_step [OF p2, of "''sourceTypes''"] obtain e3 where
    c3: "copy_if_present ''sourceTypes'' (PyDict s) e2 = Inr e3" and
    p3: "map fst e3 = ''name'' # filter (\<lambda>f. map_of s f \<noteq> None)
           ((([] @ [''label'']) @ [''description'']) @ [''sourceTypes''])"
      "map_of e3 ''name'' = Some (PyStr k)"
      "\<forall>f \<in> set ((([] @ [''label'']) @ [''description'']) @ [''sourceTypes'']). map_of e3 f = map_of s f"
    by auto
  from copy_step [OF p3, of "''targetTypes''"] obtain e4 where
    c4: "copy_if_present ''targetTypes'' (PyDict s) e3 = Inr e4" and
    p4: "map fst e4 = ''name'' # filter (\<lambda>f. map_of s f \<noteq> None)
           (((([] @ [''label'']) @ [''description'']) @ [''sourceTypes'']) @ [''targetTypes''])"
      "map_of e4 ''name'' = Some (PyStr k)"
      "\<forall>f \<in> set (((([] @ [''label'']) @ [''description'']) @ [''sourceTypes'']) @ [''targetTypes'']).
          map_of e4 f = map_of s f"
    by auto
  have "relationship_entry k (PyDict s) = Inr (PyDict e4)"
    by (simp add: relationship_entry_def c1 c2 c3 c4 ebind_def)
  moreover have "map fst e4 = ''name'' # filter (\<lambda>f. f \<in> set (map fst s))
      [''label'', ''description'', ''sourceTypes'', ''targetTypes'']"
    using p4(1) unfolding keys_filter_conv by simp
  moreover have "\<forall>f \<in> set [''label'', ''description'', ''sourceTypes'', ''targetTypes'']. map_of e4 f = map_of s f"
    using p4(3) by simp
  ultimately show ?thesis using p4(2)
    by - (rule exI [of _ e4], intro conjI, assumption+)
qed

lemma object_entry_nondict:
  "\<not> isinstance_dict v \<Longrightarrow>
   object_entry k v =
     (if \<forall>f \<in> set [''label'', ''description'', ''properties'']. py_contains f v = Inr False
      then Inr (PyDict [(''name'', PyStr k)]) else Inl TypeError)"
  by (simp add: object_entry_def copy_if_present_nondict ebind_def)

lemma relationship_entry_nondict:
  "\<not> isinstance_dict v \<Longrightarrow>
   relationship_entry k v =
     (if \<forall>f \<in> set [''label'', ''description'', ''sourceTypes'', ''targetTypes'']. py_contains f v = Inr False
      then Inr (PyDict [(''name'', PyStr k)]) else Inl TypeError)"
  by (simp add: relationship_entry_def copy_if_present_nondict ebind_def)

lemma relationship_loop_Inr:
  "relationship_loop items acc = Inr out \<longleftrightarrow>
   (\<exists>rs. out = acc @ rs \<and> list_all2 (\<lambda>(k, v) r. relationship_entry k v = Inr r) items rs)"
proof (induction items arbitrary: acc)
  case Nil
  then show ?case by auto
next
  case (Cons a items)
  obtain k v where a: "a = (k, v)" by (cases a)
  show ?case
  proof (cases "relationship_entry k v")
    case (Inl e)
    then show ?thesis by (simp add: a ebind_def list_all2_Cons1)
  next
    case (Inr r)
    then show ?thesis
      by (auto simp add: a ebind_def Cons.IH list_all2_Cons1)
  qed
qed

lemma object_entry_error: "object_entry k v = Inl e \<Longrightarrow> e = TypeError"
proof (cases "isinstance_dict v")
  case True
  then obtain s where "v = PyDict s" by (cases v) auto
  moreover assume "object_entry k v = Inl e"
  ultimately show ?thesis using object_entry_dict [of k s] by auto
next
  case False
  moreover assume "object_entry k v = Inl e"
  ultimately show ?thesis by (simp add: object_entry_nondict split: if_splits)
qed

lemma relationship_entry_error: "relationship_entry k v = Inl e \<Longrightarrow> e = TypeError"
proof (cases "isinstance_dict v")
  case True
  then obtain s where "v = PyDict s" by (cases v) auto
  moreover assume "relationship_entry k v = Inl e"
  ultimately show ?thesis using relationship_entry_dict [of k s] by auto
next
  case False
  moreover assume "relationship_entry k v = Inl e"
  ultimately show ?thesis by (simp add: relationship_entry_nondict split: if_splits)
qed

lemma object_loop_Inl:
  "(k, v) \<in> set items \<Longrightarrow> object_entry k v = Inl TypeError \<Longrightarrow> object_loop items acc = Inl TypeError"
proof (induction items arbitrary: acc)
  case Nil
  then show ?case by simp
next
  case (Cons a items)
  obtain k' v' where a: "a = (k', v')" by (cases a)
  show ?case
  proof (cases "object_entry k' v'")
    case (Inl e)
    then show ?thesis using object_entry_error [OF Inl] by (simp add: a ebind_def)
  next
    case (Inr r)
    with Cons.prems a have "(k, v) \<in> set items" by auto
    then show ?thesis using Cons.IH Cons.prems(2) Inr by (simp add: a ebind_def)
  qed
qed

lemma relationship_loop_Inl:
  "(k, v) \<in> set items \<Longrightarrow> relationship_entry k v = Inl TypeError \<Longrightarrow>
   relationship_loop items acc = Inl TypeError"
proof (induction items arbitrary: acc)
  case Nil
  then show ?case by simp
next
  case (Cons a items)
  obtain k' v' where a: "a = (k', v')" by (cases a)
  show ?case
  proof (cases "relationship_entry k' v'")
    case (Inl e)
    then show ?thesis using relationship_entry_error [OF Inl] by (simp add: a ebind_def)
  next
    case (Inr r)
    with Cons.prems a have "(k, v) \<in> set items" by auto
    then show ?thesis using Cons.IH Cons.prems(2) Inr by (simp add: a ebind_def)
  qed
qed

subsection \<open>Whole collections\<close>

lemma object_loop_dicts:
  "\<forall>(k, v) \<in> set items. isinstance_dict v \<Longrightarrow>
   \<exists>rs. object_loop items acc = Inr (acc @ rs) \<and>
        list_all2 (\<lambda>(k, v) r. object_entry k v = Inr r) items rs"
proof (induction items arbitrary: acc)
  case Nil
  then show ?case by simp
next
  case (Cons a items)
  obtain k v where a: "a = (k, v)" by (cases a)
  with Cons.prems obtain s where v: "v = PyDict s" by (cases v) auto
  from object_entry_dict [of k s] obtain e where e: "object_entry k v = Inr (PyDict e)"
    unfolding v by blast
  from Cons.prems have "\<forall>(k, v) \<in> set items. isinstance_dict v" by simp
  from Cons.IH [OF this, of "acc @ [PyDict e]"] obtain rs where
    rs: "object_loop items (acc @ [PyDict e]) = Inr ((acc @ [PyDict e]) @ rs)"
      "list_all2 (\<lambda>(k, v) r. object_entry k v = Inr r) items rs"
    by blast
  show ?case
    by (rule exI [of _ "PyDict e # rs"]) (simp add: a e rs ebind_def)
qed

lemma relationship_loop_dicts:
  "\<forall>(k, v) \<in> set items. isinstance_dict v \<Longrightarrow>
   \<exists>rs. relationship_loop items acc = Inr (acc @ rs) \<and>
        list_all2 (\<lambda>(k, v) r. relationship_entry k v = Inr r) items rs"
proof (induction items arbitrary: acc)
  case Nil
  then show ?case by simp
next
  case (Cons a items)
  obtain k v where a: "a = (k, v)" by (cases a)
  with Cons.prems obtain s where v: "v = PyDict s" by (cases v) auto
  from relationship_entry_dict [of k s] obtain e where e: "relationship_entry k v = Inr (PyDict e)"
    unfolding v by blast
  from Cons.prems have "\<forall>(k, v) \<in> set items. isinstance_dict v" by simp
  from Cons.IH [OF this, of "acc @ [PyDict e]"] obtain rs where
    rs: "relationship_loop items (acc @ [PyDict e]) = Inr ((acc @ [PyDict e]) @ rs)"
      "list_all2 (\<lambda>(k, v) r. relationship_entry k v = Inr r) items rs"
    by blast
  show ?case
    by (rule exI [of _ "PyDict e # rs"]) (simp add: a e rs ebind_def)
qed

lemma convert_object_schemas_dicts:
  assumes "\<forall>(k, v) \<in> set M. isinstance_dict v"
  shows "\<exists>result. convert_object_schemas (PyDict M) = Inr (PyList result) \<and>
           list_all2 (\<lambda>(k, v) r. object_entry k v = Inr r) M result"
proof (cases "M = []")
  case True
  then show ?thesis by (simp add: convert_object_schemas_def)
next
  case False
  from object_loop_dicts [OF assms, of "[]"] obtain rs where
    "object_loop M [] = Inr rs" "list_all2 (\<lambda>(k, v) r. object_entry k v = Inr r) M rs"
    by auto
  with False show ?thesis by (simp add: convert_object_schemas_def ebind_def)
qed

lemma convert_relationship_schemas_dicts:
  assumes "\<forall>(k, v) \<in> set M. isinstance_dict v"
  shows "\<exists>result. convert_relationship_schemas (PyDict M) = Inr (PyList result) \<and>
           list_all2 (\<lambda>(k, v) r. relationship_entry k v = Inr r) M result"
proof (cases "M = []")
  case True
  then show ?thesis by (simp add: convert_relationship_schemas_def)
next
  case False
  from relationship_loop_dicts [OF assms, of "[]"] obtain rs where
    "relationship_loop M [] = Inr rs" "list_all2 (\<lambda>(k, v) r. relationship_entry k v = Inr r) M rs"
    by auto
  with False show ?thesis by (simp add: convert_relationship_schemas_def ebind_def)
qed

lemma convert_object_schemas_Inl:
  assumes "(k, v) \<in> set M" and "object_entry k v = Inl TypeError"
  shows "convert_object_schemas (PyDict M) = Inl TypeError"
proof -
  from assms(1) have "M \<noteq> []" by auto
  with object_loop_Inl [OF assms, of "[]"] show ?thesis
    by (simp add: convert_object_schemas_def ebind_def)
qed

lemma convert_relationship_schemas_Inl:
  assumes "(k, v) \<in> set M" and "relationship_entry k v = Inl TypeError"
  shows "convert_relationship_schemas (PyDict M) = Inl TypeError"
proof -
  from assms(1) have "M \<noteq> []" by auto
  with relationship_loop_Inl [OF assms, of "[]"] show ?thesis
    by (simp add: convert_relationship_schemas_def ebind_def)
qed

lemma object_entry_dictE:
  obtains e where "object_entry k (PyDict s) = Inr (PyDict e)"
    and "map fst e = ''name'' # filter (\<lambda>f. f \<in> set (map fst s)) [''label'', ''description'', ''properties'']"
    and "map_of e ''name'' = Some (PyStr k)"
    and "\<forall>f \<in> set [''label'', ''description'', ''properties'']. map_of e f = map_of s f"
  using object_entry_dict [of k s] by (elim exE conjE)

lemma relationship_entry_dictE:
  obtains e where "relationship_entry k (PyDict s) = Inr (PyDict e)"
    and "map fst e = ''name'' # filter (\<lambda>f. f \<in> set (map fst s))
          [''label'', ''description'', ''sourceTypes'', ''targetTypes'']"
    and "map_of e ''name'' = Some (PyStr k)"
    and "\<forall>f \<in> set [''label'', ''description'', ''sourceTypes'', ''targetTypes'']. map_of e f = map_of s f"
  using relationship_entry_dict [of k s] by (elim exE conjE)

lemma py_contains_scalar:
  "v \<in> {PyNone} \<union> range PyBool \<union> range PyInt \<union> range PyFloat \<Longrightarrow> py_contains f v = Inl TypeError"
  by auto

subsection \<open>The stages of \<open>convert_pack\<close>\<close>

lemmas io_defs = io_bind_def io_lift_def io_return_def io_raise_def py_print_def

lemma convert_object_field_skip:
  assumes "map_of d ''object_type_schemas'' = Some v" and "\<not> isinstance_dict v"
  shows "convert_object_field (PyDict d) w =
    (Inr (PyDict d), w\<lparr>stdout := stdout w @
       [[Lit ''Converting object_type_schemas...''], [Lit ''  Already in array format, skipping'']]\<rparr>)"
  using assms by (simp add: convert_object_field_def io_defs)

lemma convert_relationship_field_skip:
  assumes "map_of d ''relationship_type_schemas'' = Some v" and "\<not> isinstance_dict v"
  shows "convert_relationship_field (PyDict d) w =
    (Inr (PyDict d), w\<lparr>stdout := stdout w @
       [[Lit ''Converting relationship_type_schemas...''], [Lit ''  Already in array format, skipping'']]\<rparr>)"
  using assms by (simp add: convert_relationship_field_def io_defs)

lemma py_getitem_dict_set: "py_getitem (PyDict (dict_set key c d)) key = Inr c"
  by (simp add: map_of_dict_set)

lemma convert_object_field_Inr:
  assumes "convert_object_field pack w = (Inr pack', w')"
  shows "\<exists>d. pack = PyDict d \<and> files w' = files w \<and> writable w' = writable w \<and>
     (case map_of d ''object_type_schemas'' of
        None \<Rightarrow> pack' = PyDict (dict_set ''object_type_schemas'' (PyList []) d)
      | Some v \<Rightarrow>
          if isinstance_dict v
          then \<exists>c. convert_object_schemas v = Inr c \<and>
                 pack' = PyDict (dict_set ''object_type_schemas'' c d)
          else pack' = pack)"
proof (cases pack)
  case (PyDict d)
  show ?thesis
  proof (cases "map_of d ''object_type_schemas''")
    case None
    with assms PyDict show ?thesis
      by (auto simp add: convert_object_field_def io_defs convert_object_schemas_def
          ebind_def map_of_dict_set)
  next
    case (Some v)
    show ?thesis
    proof (cases "isinstance_dict v")
      case True
      with assms PyDict Some show ?thesis
        by (auto simp add: convert_object_field_def io_defs ebind_def map_of_dict_set
            split: sum.splits)
    next
      case False
      with assms PyDict Some show ?thesis
        by (auto simp add: convert_object_field_def io_defs)
    qed
  qed
qed (use assms in \<open>simp_all add: convert_object_field_def io_defs\<close>)

lemma convert_relationship_field_Inr:
  assumes "convert_relationship_field pack w = (Inr pack', w')"
  shows "\<exists>d. pack = PyDict d \<and> files w' = files w \<and> writable w' = writable w \<and>
     (case map_of d ''relationship_type_schemas'' of
        None \<Rightarrow> pack' = PyDict (dict_set ''relationship_type_schemas'' (PyList []) d)
      | Some v \<Rightarrow>
          if isinstance_dict v
          then \<exists>c. convert_relationship_schemas v = Inr c \<and>
                 pack' = PyDict (dict_set ''relationship_type_schemas'' c d)
          else pack' = pack)"
proof (cases pack)
  case (PyDict d)
  show ?thesis
  proof (cases "map_of d ''relationship_type_schemas''")
    case None
    with assms PyDict show ?thesis
      by (auto simp add: convert_relationship_field_def io_defs convert_relationship_schemas_def
          ebind_def map_of_dict_set)
  next
    case (Some v)
    show ?thesis
    proof (cases "isinstance_dict v")
      case True
      with assms PyDict Some show ?thesis
        by (auto simp add: convert_relationship_field_def io_defs ebind_def map_of_dict_set
            split: sum.splits)
    next
      case False
      with assms PyDict Some show ?thesis
        by (auto simp add: convert_relationship_field_def io_defs)
    qed
  qed
qed (use assms in \<open>simp_all add: convert_relationship_field_def io_defs\<close>)

lemma io_bind_Inr:
  "io_bind m f w = (Inr y, w') \<longleftrightarrow> (\<exists>x w1. m w = (Inr x, w1) \<and> f x w1 = (Inr y, w'))"
  by (auto simp add: io_bind_def split: prod.splits sum.splits)

lemma json_load_Inr: "json_load p w = (Inr v, w') \<Longrightarrow> files w p = Some (JsonDoc v) \<and> w' = w"
  by (auto simp add: json_load_def split: option.splits node.splits)

lemma json_dump_Inr:
  "json_dump v p w = (Inr u, w') \<Longrightarrow>
   w' = w\<lparr>files := (files w)(p \<mapsto> JsonDoc v)\<rparr> \<and> writable w p \<and> files w p \<noteq> Some Directory"
  by (auto simp add: json_dump_def split: if_splits)

lemma py_print_Inr: "py_print line w = (Inr u, w') \<Longrightarrow> w' = w\<lparr>stdout := stdout w @ [line]\<rparr>"
  by (simp add: py_print_def split: if_splits)

lemma convert_pack_Inr:
  assumes "convert_pack inp outp w = (Inr pack', w')"
  shows "\<exists>d p1 w1 w2 w3.
           files w inp = Some (JsonDoc (PyDict d)) \<and>
           convert_object_field (PyDict d) w1 = (Inr p1, w2) \<and>
           convert_relationship_field p1 w2 = (Inr pack', w3) \<and>
           files w' = (files w)(outp \<mapsto> JsonDoc pack') \<and> writable w' = writable w"
proof -
  from assms obtain u0 w0 pack w1 p1 w2 p2 w3 u1 w4 u2 w5 u3 w6 where
    s0: "py_print [Lit ''Reading '', PathF inp, Lit ''...''] w = (Inr u0, w0)" and
    s1: "json_load inp w0 = (Inr pack, w1)" and
    s2: "convert_object_field pack w1 = (Inr p1, w2)" and
    s3: "convert_relationship_field p1 w2 = (Inr p2, w3)" and
    s4: "py_print [Lit ''Writing '', PathF outp, Lit ''...''] w3 = (Inr u1, w4)" and
    s5: "json_dump p2 outp w4 = (Inr u2, w5)" and
    s6: "py_print [Lit (check_mark @ '' Conversion complete'')] w5 = (Inr u3, w6)" and
    s7: "io_return p2 w6 = (Inr pack', w')"
    unfolding convert_pack_def io_bind_Inr by (elim exE conjE)
  from s7 have e: "p2 = pack'" "w' = w6" by (simp_all add: io_return_def)
  from convert_object_field_Inr [OF s2] obtain d where
    d: "pack = PyDict d" "files w2 = files w1" "writable w2 = writable w1" by auto
  from convert_relationship_field_Inr [OF s3] have
    r: "files w3 = files w2" "writable w3 = writable w2" by auto
  from json_load_Inr [OF s1] have l: "files w0 inp = Some (JsonDoc pack)" "w1 = w0" by simp_all
  have f0: "files w0 = files w" "writable w0 = writable w"
    using py_print_Inr [OF s0] by simp_all
  have f4: "files w4 = files w3" "writable w4 = writable w3"
    using py_print_Inr [OF s4] by simp_all
  have f5: "files w5 = (files w4)(outp \<mapsto> JsonDoc p2)" "writable w5 = writable w4"
    using json_dump_Inr [OF s5] by simp_all
  have f6: "files w6 = files w5" "writable w6 = writable w5"
    using py_print_Inr [OF s6] by simp_all
  have A: "files w inp = Some (JsonDoc (PyDict d))" using l d f0 by simp
  have B: "convert_object_field (PyDict d) w1 = (Inr p1, w2)" using s2 d by simp
  have C: "convert_relationship_field p1 w2 = (Inr pack', w3)" using s3 e by simp
  have D: "files w' = (files w)(outp \<mapsto> JsonDoc pack')"
    using e f6 f5 f4 r d l f0 by simp
  have E: "writable w' = writable w"
    using e f6 f5 f4 r d l f0 by simp
  from A B C D E show ?thesis by blast
qed

lemma filter_dict_set:
  "\<not> P key \<Longrightarrow> filter (\<lambda>(k, v). P k) (dict_set key c d) = filter (\<lambda>(k, v). P k) d"
  by (induction key c d rule: dict_set.induct) auto

lemma convert_pack_fields:
  assumes "convert_pack inp outp w = (Inr pack', w')"
  shows "\<exists>d d'. files w inp = Some (JsonDoc (PyDict d)) \<and> pack' = PyDict d' \<and>
           files w' = (files w)(outp \<mapsto> JsonDoc pack') \<and>
           (\<forall>k. k \<noteq> ''object_type_schemas'' \<and> k \<noteq> ''relationship_type_schemas'' \<longrightarrow>
                map_of d' k = map_of d k) \<and>
           filter (\<lambda>(k, v). k \<noteq> ''object_type_schemas'' \<and> k \<noteq> ''relationship_type_schemas'') d' =
             filter (\<lambda>(k, v). k \<noteq> ''object_type_schemas'' \<and> k \<noteq> ''relationship_type_schemas'') d \<and>
           (case map_of d ''object_type_schemas'' of
              None \<Rightarrow> map_of d' ''object_type_schemas'' = Some (PyList [])
            | Some v \<Rightarrow>
                if isinstance_dict v
                then \<exists>c. convert_object_schemas v = Inr c \<and> map_of d' ''object_type_schemas'' = Some c
                else map_of d' ''object_type_schemas'' = Some v) \<and>
           (case map_of d ''relationship_type_schemas'' of
              None \<Rightarrow> map_of d' ''relationship_type_schemas'' = Some (PyList [])
            | Some v \<Rightarrow>
                if isinstance_dict v
                then \<exists>c. convert_relationship_schemas v = Inr c \<and>
                       map_of d' ''relationship_type_schemas'' = Some c
                else map_of d' ''relationship_type_schemas'' = Some v)"
proof -
  let ?P = "\<lambda>k. k \<noteq> ''object_type_schemas'' \<and> k \<noteq> ''relationship_type_schemas''"
  from convert_pack_Inr [OF assms] obtain d p1 w1 w2 w3 where
    A: "files w inp = Some (JsonDoc (PyDict d))" and
    B: "convert_object_field (PyDict d) w1 = (Inr p1, w2)" and
    C: "convert_relationship_field p1 w2 = (Inr pack', w3)" and
    D: "files w' = (files w)(outp \<mapsto> JsonDoc pack')"
    by blast
  from convert_object_field_Inr [OF B] have
    o: "case map_of d ''object_type_schemas'' of
          None \<Rightarrow> p1 = PyDict (dict_set ''object_type_schemas'' (PyList []) d)
        | Some v \<Rightarrow>
            if isinstance_dict v
            then \<exists>c. convert_object_schemas v = Inr c \<and>
                   p1 = PyDict (dict_set ''object_type_schemas'' c d)
            else p1 = PyDict d"
    by simp
  then obtain d1 where p1: "p1 = PyDict d1" and
    k1: "\<forall>k. k \<noteq> ''object_type_schemas'' \<longrightarrow> map_of d1 k = map_of d k" and
    f1: "filter (\<lambda>(k, v). ?P k) d1 = filter (\<lambda>(k, v). ?P k) d" and
    o1: "case map_of d ''object_type_schemas'' of
          None \<Rightarrow> map_of d1 ''object_type_schemas'' = Some (PyList [])
        | Some v \<Rightarrow>
            if isinstance_dict v
            then \<exists>c. convert_object_schemas v = Inr c \<and> map_of d1 ''object_type_schemas'' = Some c
            else map_of d1 ''object_type_schemas'' = Some v"
    by (cases "map_of d ''object_type_schemas''")
      (auto simp add: map_of_dict_set filter_dict_set [where P = ?P] split: if_splits)
  from convert_relationship_field_Inr [OF C [unfolded p1]] have
    r: "case map_of d1 ''relationship_type_schemas'' of
          None \<Rightarrow> pack' = PyDict (dict_set ''relationship_type_schemas'' (PyList []) d1)
        | Some v \<Rightarrow>
            if isinstance_dict v
            then \<exists>c. convert_relationship_schemas v = Inr c \<and>
                   pack' = PyDict (dict_set ''relationship_type_schemas'' c d1)
            else pack' = PyDict d1"
    by simp
  then obtain d2 where p2: "pack' = PyDict d2" and
    k2: "\<forall>k. k \<noteq> ''relationship_type_schemas'' \<longrightarrow> map_of d2 k = map_of d1 k" and
    f2: "filter (\<lambda>(k, v). ?P k) d2 = filter (\<lambda>(k, v). ?P k) d1" and
    r2: "case map_of d1 ''relationship_type_schemas'' of
          None \<Rightarrow> map_of d2 ''relationship_type_schemas'' = Some (PyList [])
        | Some v \<Rightarrow>
            if isinstance_dict v
            then \<exists>c. convert_relationship_schemas v = Inr c \<and>
                   map_of d2 ''relationship_type_schemas'' = Some c
            else map_of d2 ''relationship_type_schemas'' = Some v"
    by (cases "map_of d1 ''relationship_type_schemas''")
      (auto simp add: map_of_dict_set filter_dict_set [where P = ?P] split: if_splits)
  have ne: "''object_type_schemas'' \<noteq> ''relationship_type_schemas''" by simp
  have m1: "map_of d1 ''relationship_type_schemas'' = map_of d ''relationship_type_schemas''"
    using k1 ne by simp
  have m2: "map_of d2 ''object_type_schemas'' = map_of d1 ''object_type_schemas''"
    using k2 ne by simp
  have K: "\<forall>k. ?P k \<longrightarrow> map_of d2 k = map_of d k" using k1 k2 by simp
  have F: "filter (\<lambda>(k, v). ?P k) d2 = filter (\<lambda>(k, v). ?P k) d" using f1 f2 by simp
  have O: "case map_of d ''object_type_schemas'' of
              None \<Rightarrow> map_of d2 ''object_type_schemas'' = Some (PyList [])
            | Some v \<Rightarrow>
                if isinstance_dict v
                then \<exists>c. convert_object_schemas v = Inr c \<and> map_of d2 ''object_type_schemas'' = Some c
                else map_of d2 ''object_type_schemas'' = Some v"
    using o1 unfolding m2 .
  have R: "case map_of d ''relationship_type_schemas'' of
              None \<Rightarrow> map_of d2 ''relationship_type_schemas'' = Some (PyList [])
            | Some v \<Rightarrow>
                if isinstance_dict v
                then \<exists>c. convert_relationship_schemas v = Inr c \<and>
                       map_of d2 ''relationship_type_schemas'' = Some c
                else map_of d2 ''relationship_type_schemas'' = Some v"
    using r2 unfolding m1 .
  from A p2 D K F O R show ?thesis
    by - (rule exI [of _ d], rule exI [of _ d2], intro conjI, assumption+)
qed

lemmas run_defs = convert_pack_def convert_object_field_def convert_relationship_field_def
  io_bind_def io_lift_def io_return_def io_raise_def py_print_def json_load_def json_dump_def
  convert_object_schemas_def convert_relationship_schemas_def object_entry_def
  relationship_entry_def copy_if_present_def ebind_def

lemmas example_defs = in_json_def out_json_def world_with_def

lemma run_pair: "fst r = Inr x \<Longrightarrow> r = (Inr x, snd r)"
  by (cases r) simp

subsection \<open>Paths and \<open>main\<close>\<close>

lemmas path_defs = Path_def splitroot_def path_name_def path_parent_def path_div_def
  path_stem_def path_suffix_def rfind_def default_output_path_def

lemma split_slash_no_slash: "x \<in> set (split_slash s) \<Longrightarrow> CHR ''/'' \<notin> set x"
  by (induction s arbitrary: x) (auto split: if_splits list.splits)

lemma split_slash_single: "CHR ''/'' \<notin> set s \<Longrightarrow> split_slash s = [s]"
  by (induction s) auto

lemma Path_parts_no_slash: "x \<in> set (path_parts (Path s)) \<Longrightarrow> CHR ''/'' \<notin> set x"
  by (auto simp add: Path_def split: prod.splits dest: split_slash_no_slash)

lemma path_name_no_slash: "CHR ''/'' \<notin> set (path_name (Path s))"
proof (cases "path_parts (Path s) = []")
  case True
  then show ?thesis by (simp add: path_name_def)
next
  case False
  then have "last (path_parts (Path s)) \<in> set (path_parts (Path s))" by simp
  then have "CHR ''/'' \<notin> set (last (path_parts (Path s)))" by (rule Path_parts_no_slash)
  then show ?thesis using False by (simp add: path_name_def)
qed

lemma path_stem_no_slash: "CHR ''/'' \<notin> set (path_stem (Path s))"
  using path_name_no_slash [of s]
  by (auto simp add: path_stem_def Let_def dest: in_set_takeD)

lemma Path_single:
  assumes "CHR ''/'' \<notin> set t" and "t \<noteq> []" and "t \<noteq> ''.''"
  shows "Path t = \<lparr>path_root = [], path_parts = [t]\<rparr>"
proof -
  from assms(1,2) have "hd t \<noteq> CHR ''/''" by (cases t) auto
  then have "splitroot t = ([], t)" by (simp add: splitroot_def)
  with assms show ?thesis by (simp add: Path_def split_slash_single)
qed

lemma default_output_path_eq:
  "default_output_path (Path s) =
     \<lparr>path_root = path_root (path_parent (Path s)),
      path_parts = path_parts (path_parent (Path s)) @ [path_stem (Path s) @ ''-converted.json'']\<rparr>"
proof -
  let ?t = "path_stem (Path s) @ ''-converted.json''"
  have 1: "CHR ''/'' \<notin> set ?t" using path_stem_no_slash [of s] by simp
  have 2: "?t \<noteq> []" by simp
  have "length ?t \<noteq> length ''.''" by simp
  then have 3: "?t \<noteq> ''.''" by metis
  show ?thesis
    by (simp add: default_output_path_def path_div_def Path_single [OF 1 2 3])
qed

lemma Path_in_json: "Path ''in.json'' = in_json"
  by (simp add: path_defs in_json_def)

lemma Path_out_json: "Path ''out.json'' = out_json"
  by (simp add: path_defs out_json_def)

lemma validation_missing:
  assumes "py_getitem (PyDict d) ''name'' = Inl KeyError \<or>
           py_getitem (PyDict d) ''version'' = Inl KeyError"
  shows "fst (validation (PyDict d) w) =
           (case py_getitem (PyDict d) ''name'' of
              Inl e \<Rightarrow> Inl KeyError
            | Inr v \<Rightarrow> if encodable (Val v) then Inl KeyError else Inl UnicodeEncodeError) \<and>
         files (snd (validation (PyDict d) w)) = files w"
proof (cases "map_of d ''name''")
  case None
  then show ?thesis by (simp add: validation_def io_defs)
next
  case (Some v)
  with assms have "map_of d ''version'' = None" by (auto split: option.splits)
  with Some show ?thesis by (simp add: validation_def io_defs)
qed

section \<open>The claims about the two conversions\<close>

text \<open>
  Claim C1. For a legacy mapping \<open>M\<close> whose values are all schema mappings,
  \<open>convert_object_schemas\<close> returns a list as long as \<open>M\<close> whose elements, read in
  order, carry as \<open>name\<close> the keys of \<open>M\<close> in their iteration order.
\<close>

theorem convert_object_schemas_key_to_name:
  assumes "\<forall>(k, schema) \<in> set M. isinstance_dict schema"
  shows "\<exists>result. convert_object_schemas (PyDict M) = Inr (PyList result) \<and>
           length result = length M \<and>
           map (\<lambda>e. py_getitem e ''name'') result = map (\<lambda>(k, schema). Inr (PyStr k)) M"
proof -
  from convert_object_schemas_dicts [OF assms] obtain result where
    conv: "convert_object_schemas (PyDict M) = Inr (PyList result)" and
    all2: "list_all2 (\<lambda>(k, v) r. object_entry k v = Inr r) M result"
    by blast
  from all2 have len: "length result = length M" by (simp add: list_all2_lengthD)
  have "map (\<lambda>e. py_getitem e ''name'') result = map (\<lambda>(k, schema). Inr (PyStr k)) M"
  proof (rule nth_equalityI)
    show "length (map (\<lambda>e. py_getitem e ''name'') result) = length (map (\<lambda>(k, schema). Inr (PyStr k)) M)"
      using len by simp
  next
    fix i assume "i < length (map (\<lambda>e. py_getitem e ''name'') result)"
    then have i: "i < length M" using len by simp
    obtain k v where kv: "M ! i = (k, v)" by (cases "M ! i")
    with i have "(k, v) \<in> set M" by (metis nth_mem)
    with assms obtain s where v: "v = PyDict s" by (cases v) auto
    from all2 i kv have r: "object_entry k v = Inr (result ! i)"
      by (auto dest: list_all2_nthD)
    from object_entry_dict [of k s] r v obtain e where
      "result ! i = PyDict e" "map_of e ''name'' = Some (PyStr k)" by auto
    then show "map (\<lambda>e. py_getitem e ''name'') result ! i = map (\<lambda>(k, schema). Inr (PyStr k)) M ! i"
      using i len kv by simp
  qed
  with conv len show ?thesis by blast
qed

theorem convert_object_schemas_key_to_name_witness:
  "isinstance_dict (PyDict [(''label'', PyStr ''Person'')]) \<and> isinstance_dict (PyDict []) \<and>
   (\<exists>result.
      convert_object_schemas
        (PyDict [(''Person'', PyDict [(''label'', PyStr ''Person'')]), (''Org'', PyDict [])]) =
        Inr (PyList result) \<and>
      length result = length [(''Person'', PyDict [(''label'', PyStr ''Person'')]), (''Org'', PyDict [])] \<and>
      map (\<lambda>e. py_getitem e ''name'') result =
        map (\<lambda>(k, schema). Inr (PyStr k))
          [(''Person'', PyDict [(''label'', PyStr ''Person'')]), (''Org'', PyDict [])])"
proof -
  have h: "\<forall>(k, schema) \<in> set [(''Person'', PyDict [(''label'', PyStr ''Person'')]), (''Org'', PyDict [])].
      isinstance_dict schema"
    by simp
  have a: "isinstance_dict (PyDict [(''label'', PyStr ''Person'')])" "isinstance_dict (PyDict [])"
    by simp_all
  show ?thesis
    by (rule conjI [OF a(1) conjI [OF a(2) convert_object_schemas_key_to_name [OF h]]])
qed

text \<open>
  Claim C2. For a legacy mapping whose values are all schema mappings, the element
  made from an entry has exactly the keys \<open>name\<close> and then those of \<open>label\<close>,
  \<open>description\<close>, \<open>properties\<close> that the entry has, each with the entry's value;
  \<open>convert_relationship_schemas\<close> does the same with \<open>label\<close>, \<open>description\<close>,
  \<open>sourceTypes\<close>, \<open>targetTypes\<close>. No other key of the entry reaches the element.
\<close>

theorem schema_field_allow_list:
  assumes "\<forall>(k, schema) \<in> set M. isinstance_dict schema"
  shows "(\<exists>result. convert_object_schemas (PyDict M) = Inr (PyList result) \<and>
            length result = length M \<and>
            (\<forall>i < length M. \<exists>s e. snd (M ! i) = PyDict s \<and> result ! i = PyDict e \<and>
               map fst e = ''name'' # filter (\<lambda>f. f \<in> set (map fst s))
                  [''label'', ''description'', ''properties''] \<and>
               (\<forall>f \<in> set [''label'', ''description'', ''properties'']. map_of e f = map_of s f))) \<and>
         (\<exists>result. convert_relationship_schemas (PyDict M) = Inr (PyList result) \<and>
            length result = length M \<and>
            (\<forall>i < length M. \<exists>s e. snd (M ! i) = PyDict s \<and> result ! i = PyDict e \<and>
               map fst e = ''name'' # filter (\<lambda>f. f \<in> set (map fst s))
                  [''label'', ''description'', ''sourceTypes'', ''targetTypes''] \<and>
               (\<forall>f \<in> set [''label'', ''description'', ''sourceTypes'', ''targetTypes''].
                  map_of e f = map_of s f)))"
proof (rule conjI)
  from convert_object_schemas_dicts [OF assms] obtain result where
    conv: "convert_object_schemas (PyDict M) = Inr (PyList result)" and
    all2: "list_all2 (\<lambda>(k, v) r. object_entry k v = Inr r) M result"
    by blast
  from all2 have len: "length result = length M" by (simp add: list_all2_lengthD)
  have "\<exists>s e. snd (M ! i) = PyDict s \<and> result ! i = PyDict e \<and>
          map fst e = ''name'' # filter (\<lambda>f. f \<in> set (map fst s))
             [''label'', ''description'', ''properties''] \<and>
          (\<forall>f \<in> set [''label'', ''description'', ''properties'']. map_of e f = map_of s f)"
    if i: "i < length M" for i
  proof -
    obtain k v where kv: "M ! i = (k, v)" by (cases "M ! i")
    with i have "(k, v) \<in> set M" by (metis nth_mem)
    with assms obtain s where v: "v = PyDict s" by (cases v) auto
    from all2 i kv have r: "object_entry k v = Inr (result ! i)"
      by (auto dest: list_all2_nthD)
    obtain e where
      e: "object_entry k (PyDict s) = Inr (PyDict e)"
        "map fst e = ''name'' # filter (\<lambda>f. f \<in> set (map fst s))
             [''label'', ''description'', ''properties'']"
        "\<forall>f \<in> set [''label'', ''description'', ''properties'']. map_of e f = map_of s f"
      by (rule object_entry_dictE [of k s])
    from e(1) r v have "result ! i = PyDict e" by simp
    with kv v e(2,3) show ?thesis by auto
  qed
  with conv len show "\<exists>result. convert_object_schemas (PyDict M) = Inr (PyList result) \<and>
            length result = length M \<and>
            (\<forall>i < length M. \<exists>s e. snd (M ! i) = PyDict s \<and> result ! i = PyDict e \<and>
               map fst e = ''name'' # filter (\<lambda>f. f \<in> set (map fst s))
                  [''label'', ''description'', ''properties''] \<and>
               (\<forall>f \<in> set [''label'', ''description'', ''properties'']. map_of e f = map_of s f))"
    by blast
next
  from convert_relationship_schemas_dicts [OF assms] obtain result where
    conv: "convert_relationship_schemas (PyDict M) = Inr (PyList result)" and
    all2: "list_all2 (\<lambda>(k, v) r. relationship_entry k v = Inr r) M result"
    by blast
  from all2 have len: "length result = length M" by (simp add: list_all2_lengthD)
  have "\<exists>s e. snd (M ! i) = PyDict s \<and> result ! i = PyDict e \<and>
          map fst e = ''name'' # filter (\<lambda>f. f \<in> set (map fst s))
             [''label'', ''description'', ''sourceTypes'', ''targetTypes''] \<and>
          (\<forall>f \<in> set [''label'', ''description'', ''sourceTypes'', ''targetTypes''].
             map_of e f = map_of s f)"
    if i: "i < length M" for i
  proof -
    obtain k v where kv: "M ! i = (k, v)" by (cases "M ! i")
    with i have "(k, v) \<in> set M" by (metis nth_mem)
    with assms obtain s where v: "v = PyDict s" by (cases v) auto
    from all2 i kv have r: "relationship_entry k v = Inr (result ! i)"
      by (auto dest: list_all2_nthD)
    obtain e where
      e: "relationship_entry k (PyDict s) = Inr (PyDict e)"
        "map fst e = ''name'' # filter (\<lambda>f. f \<in> set (map fst s))
             [''label'', ''description'', ''sourceTypes'', ''targetTypes'']"
        "\<forall>f \<in> set [''label'', ''description'', ''sourceTypes'', ''targetTypes''].
           map_of e f = map_of s f"
      by (rule relationship_entry_dictE [of k s])
    from e(1) r v have "result ! i = PyDict e" by simp
    with kv v e(2,3) show ?thesis by auto
  qed
  with conv len show "\<exists>result. convert_relationship_schemas (PyDict M) = Inr (PyList result) \<and>
            length result = length M \<and>
            (\<forall>i < length M. \<exists>s e. snd (M ! i) = PyDict s \<and> result ! i = PyDict e \<and>
               map fst e = ''name'' # filter (\<lambda>f. f \<in> set (map fst s))
                  [''label'', ''description'', ''sourceTypes'', ''targetTypes''] \<and>
               (\<forall>f \<in> set [''label'', ''description'', ''sourceTypes'', ''targetTypes''].
                  map_of e f = map_of s f))"
    by blast
qed

theorem schema_field_allow_list_witness:
  "isinstance_dict (PyDict [(''sourceTypes'', PyList [PyStr ''Person'']),
        (''properties'', PyNone), (''label'', PyStr ''knows'')]) \<and>
   convert_object_schemas (PyDict [(''KNOWS'', PyDict [(''sourceTypes'', PyList [PyStr ''Person'']),
        (''properties'', PyNone), (''label'', PyStr ''knows'')])]) =
     Inr (PyList [PyDict [(''name'', PyStr ''KNOWS''), (''label'', PyStr ''knows''),
        (''properties'', PyNone)]]) \<and>
   convert_relationship_schemas (PyDict [(''KNOWS'', PyDict [(''sourceTypes'', PyList [PyStr ''Person'']),
        (''properties'', PyNone), (''label'', PyStr ''knows'')])]) =
     Inr (PyList [PyDict [(''name'', PyStr ''KNOWS''), (''label'', PyStr ''knows''),
        (''sourceTypes'', PyList [PyStr ''Person''])]])"
proof -
  let ?M = "[(''KNOWS'', PyDict [(''sourceTypes'', PyList [PyStr ''Person'']),
        (''properties'', PyNone), (''label'', PyStr ''knows'')])]"
  have h: "\<forall>(k, schema) \<in> set ?M. isinstance_dict schema"
    by simp
  note t = schema_field_allow_list [OF h]
  have o: "convert_object_schemas (PyDict ?M) =
     Inr (PyList [PyDict [(''name'', PyStr ''KNOWS''), (''label'', PyStr ''knows''),
        (''properties'', PyNone)]])"
    by (simp add: convert_object_schemas_def object_entry_def copy_if_present_def ebind_def)
  have r: "convert_relationship_schemas (PyDict ?M) =
     Inr (PyList [PyDict [(''name'', PyStr ''KNOWS''), (''label'', PyStr ''knows''),
        (''sourceTypes'', PyList [PyStr ''Person''])]])"
    by (simp add: convert_relationship_schemas_def relationship_entry_def copy_if_present_def ebind_def)
  from h t o r show ?thesis by simp
qed

text \<open>
  Claim C6, as amended. An entry whose value is not a mapping makes the conversion
  fail with \<open>TypeError\<close> exactly when one of the operation's membership tests
  (\<open>"label" in schema\<close> and the like) raises or holds: always for \<open>None\<close>, a boolean
  or a number, and for a list or a string only when it holds one of the allow-listed
  field names (as an element of the list, as a substring of the string). For a list or a
  string holding none of them, the loop body produces the element \<open>{"name": key}\<close>.
\<close>

theorem malformed_entry_failure:
  assumes "(k, v) \<in> set M" and "\<not> isinstance_dict v"
  shows "(if \<forall>f \<in> set [''label'', ''description'', ''properties'']. py_contains f v = Inr False
          then object_entry k v = Inr (PyDict [(''name'', PyStr k)])
          else convert_object_schemas (PyDict M) = Inl TypeError) \<and>
         (if \<forall>f \<in> set [''label'', ''description'', ''sourceTypes'', ''targetTypes''].
               py_contains f v = Inr False
          then relationship_entry k v = Inr (PyDict [(''name'', PyStr k)])
          else convert_relationship_schemas (PyDict M) = Inl TypeError) \<and>
         (v \<in> {PyNone} \<union> range PyBool \<union> range PyInt \<union> range PyFloat \<longrightarrow>
            convert_object_schemas (PyDict M) = Inl TypeError \<and>
            convert_relationship_schemas (PyDict M) = Inl TypeError)"
proof (intro conjI impI)
  show "if \<forall>f \<in> set [''label'', ''description'', ''properties'']. py_contains f v = Inr False
        then object_entry k v = Inr (PyDict [(''name'', PyStr k)])
        else convert_object_schemas (PyDict M) = Inl TypeError"
  proof (cases "\<forall>f \<in> set [''label'', ''description'', ''properties'']. py_contains f v = Inr False")
    case True
    have "object_entry k v = Inr (PyDict [(''name'', PyStr k)])"
      by (subst object_entry_nondict [OF assms(2)]) (rule if_P [OF True])
    then show ?thesis by (subst if_P [OF True])
  next
    case False
    have "object_entry k v = Inl TypeError"
      by (subst object_entry_nondict [OF assms(2)]) (rule if_not_P [OF False])
    from convert_object_schemas_Inl [OF assms(1) this] show ?thesis by (subst if_not_P [OF False])
  qed
next
  show "if \<forall>f \<in> set [''label'', ''description'', ''sourceTypes'', ''targetTypes''].
             py_contains f v = Inr False
        then relationship_entry k v = Inr (PyDict [(''name'', PyStr k)])
        else convert_relationship_schemas (PyDict M) = Inl TypeError"
  proof (cases "\<forall>f \<in> set [''label'', ''description'', ''sourceTypes'', ''targetTypes''].
             py_contains f v = Inr False")
    case True
    have "relationship_entry k v = Inr (PyDict [(''name'', PyStr k)])"
      by (subst relationship_entry_nondict [OF assms(2)]) (rule if_P [OF True])
    then show ?thesis by (subst if_P [OF True])
  next
    case False
    have "relationship_entry k v = Inl TypeError"
      by (subst relationship_entry_nondict [OF assms(2)]) (rule if_not_P [OF False])
    from convert_relationship_schemas_Inl [OF assms(1) this] show ?thesis by (subst if_not_P [OF False])
  qed
next
  assume sc: "v \<in> {PyNone} \<union> range PyBool \<union> range PyInt \<union> range PyFloat"
  have c: "py_contains ''label'' v = Inl TypeError" by (rule py_contains_scalar [OF sc])
  have "object_entry k v = Inl TypeError"
    using object_entry_nondict [OF assms(2), of k] c by simp
  then show "convert_object_schemas (PyDict M) = Inl TypeError"
    by (rule convert_object_schemas_Inl [OF assms(1)])
next
  assume sc: "v \<in> {PyNone} \<union> range PyBool \<union> range PyInt \<union> range PyFloat"
  have c: "py_contains ''label'' v = Inl TypeError" by (rule py_contains_scalar [OF sc])
  have "relationship_entry k v = Inl TypeError"
    using relationship_entry_nondict [OF assms(2), of k] c by simp
  then show "convert_relationship_schemas (PyDict M) = Inl TypeError"
    by (rule convert_relationship_schemas_Inl [OF assms(1)])
qed

theorem malformed_entry_failure_witness:
  "(''B'', PyNone) \<in> set [(''A'', PyDict []), (''B'', PyNone)] \<and> \<not> isinstance_dict PyNone \<and>
   convert_object_schemas (PyDict [(''A'', PyDict []), (''B'', PyNone)]) = Inl TypeError \<and>
   convert_relationship_schemas (PyDict [(''A'', PyDict []), (''B'', PyNone)]) = Inl TypeError"
proof -
  have h1: "(''B'', PyNone) \<in> set [(''A'', PyDict []), (''B'', PyNone)]" by simp
  have h2: "\<not> isinstance_dict PyNone" by simp
  show ?thesis
    using h1 h2 malformed_entry_failure [OF h1 h2] by simp
qed

text \<open>
  Claim C6 as stated fails: an entry whose value is an empty list, or a string without
  any of the field names, is converted without any failure.
\<close>

theorem malformed_entry_failure_counterexample:
  "\<not> isinstance_dict (PyList []) \<and>
   convert_object_schemas (PyDict [(''Person'', PyList [])]) =
     Inr (PyList [PyDict [(''name'', PyStr ''Person'')]]) \<and>
   \<not> isinstance_dict (PyStr ''hello'') \<and>
   convert_relationship_schemas (PyDict [(''KNOWS'', PyStr ''hello'')]) =
     Inr (PyList [PyDict [(''name'', PyStr ''KNOWS'')]])"
  by (simp add: convert_object_schemas_def object_entry_def convert_relationship_schemas_def
      relationship_entry_def copy_if_present_def ebind_def)

section \<open>The claims about \<open>convert_pack\<close>\<close>

text \<open>
  Claim C3. When the document read is a mapping whose \<open>object_type_schemas\<close> and
  \<open>relationship_type_schemas\<close> are both lists, and the output can be written,
  \<open>convert_pack\<close> returns the document as it was read, writes that same document, and
  prints the "already in array format" notice for each of the two collections.
\<close>

theorem convert_pack_current_shape:
  assumes "files w inp = Some (JsonDoc (PyDict d))"
    and "map_of d ''object_type_schemas'' = Some (PyList xs)"
    and "map_of d ''relationship_type_schemas'' = Some (PyList ys)"
    and "files w outp \<noteq> Some Directory" and "writable w outp"
  shows "convert_pack inp outp w =
    (Inr (PyDict d),
     w\<lparr>files := (files w)(outp \<mapsto> JsonDoc (PyDict d)),
       stdout := stdout w @
         [[Lit ''Reading '', PathF inp, Lit ''...''],
          [Lit ''Converting object_type_schemas...''],
          [Lit ''  Already in array format, skipping''],
          [Lit ''Converting relationship_type_schemas...''],
          [Lit ''  Already in array format, skipping''],
          [Lit ''Writing '', PathF outp, Lit ''...''],
          [Lit (check_mark @ '' Conversion complete'')]]\<rparr>)"
  using assms
  by (simp add: convert_pack_def convert_object_field_def convert_relationship_field_def
      io_defs json_load_def json_dump_def)

theorem convert_pack_current_shape_witness:
  "convert_pack in_json out_json
     (world_with (PyDict [(''name'', PyStr ''P''),
        (''object_type_schemas'', PyList [PyDict [(''name'', PyStr ''Person'')]]),
        (''relationship_type_schemas'', PyList [])])) =
   (Inr (PyDict [(''name'', PyStr ''P''),
        (''object_type_schemas'', PyList [PyDict [(''name'', PyStr ''Person'')]]),
        (''relationship_type_schemas'', PyList [])]),
    \<lparr>files = [in_json \<mapsto> JsonDoc (PyDict [(''name'', PyStr ''P''),
          (''object_type_schemas'', PyList [PyDict [(''name'', PyStr ''Person'')]]),
          (''relationship_type_schemas'', PyList [])]),
        out_json \<mapsto> JsonDoc (PyDict [(''name'', PyStr ''P''),
          (''object_type_schemas'', PyList [PyDict [(''name'', PyStr ''Person'')]]),
          (''relationship_type_schemas'', PyList [])])],
      writable = (\<lambda>p. True),
      write_error = (\<lambda>p. FileNotFoundError),
      stdout = [[Lit ''Reading '', PathF in_json, Lit ''...''],
          [Lit ''Converting object_type_schemas...''],
          [Lit ''  Already in array format, skipping''],
          [Lit ''Converting relationship_type_schemas...''],
          [Lit ''  Already in array format, skipping''],
          [Lit ''Writing '', PathF out_json, Lit ''...''],
          [Lit (check_mark @ '' Conversion complete'')]]\<rparr>)"
proof -
  let ?d = "[(''name'', PyStr ''P''),
        (''object_type_schemas'', PyList [PyDict [(''name'', PyStr ''Person'')]]),
        (''relationship_type_schemas'', PyList [])]"
  let ?w = "world_with (PyDict ?d)"
  have h1: "files ?w in_json = Some (JsonDoc (PyDict ?d))" by (simp add: example_defs)
  have h2: "map_of ?d ''object_type_schemas'' = Some (PyList [PyDict [(''name'', PyStr ''Person'')]])"
    by simp
  have h3: "map_of ?d ''relationship_type_schemas'' = Some (PyList [])" by simp
  have h4: "files ?w out_json \<noteq> Some Directory" by (simp add: example_defs)
  have h5: "writable ?w out_json" by (simp add: example_defs)
  show ?thesis
    using convert_pack_current_shape [OF h1 h2 h3 h4 h5] by (simp add: world_with_def)
qed

text \<open>
  Claim C4. Whenever \<open>convert_pack\<close> returns a pack, the input was a mapping, the pack
  returned is the one written at the output path, no other file has changed, and every
  top-level field other than \<open>object_type_schemas\<close> and \<open>relationship_type_schemas\<close>
  has in the pack the value it had in the input; these fields also keep their order.
\<close>

theorem convert_pack_frame:
  assumes "convert_pack inp outp w = (Inr pack', w')"
  shows "\<exists>d d'. files w inp = Some (JsonDoc (PyDict d)) \<and> pack' = PyDict d' \<and>
           files w' outp = Some (JsonDoc (PyDict d')) \<and>
           (\<forall>p. p \<noteq> outp \<longrightarrow> files w' p = files w p) \<and>
           (\<forall>k. k \<noteq> ''object_type_schemas'' \<and> k \<noteq> ''relationship_type_schemas'' \<longrightarrow>
                map_of d' k = map_of d k) \<and>
           filter (\<lambda>(k, v). k \<noteq> ''object_type_schemas'' \<and> k \<noteq> ''relationship_type_schemas'') d' =
             filter (\<lambda>(k, v). k \<noteq> ''object_type_schemas'' \<and> k \<noteq> ''relationship_type_schemas'') d"
proof -
  from convert_pack_fields [OF assms] obtain d d' where
    A: "files w inp = Some (JsonDoc (PyDict d))" and
    B: "pack' = PyDict d'" and
    C: "files w' = (files w)(outp \<mapsto> JsonDoc pack')" and
    K: "\<forall>k. k \<noteq> ''object_type_schemas'' \<and> k \<noteq> ''relationship_type_schemas'' \<longrightarrow>
                map_of d' k = map_of d k" and
    F: "filter (\<lambda>(k, v). k \<noteq> ''object_type_schemas'' \<and> k \<noteq> ''relationship_type_schemas'') d' =
             filter (\<lambda>(k, v). k \<noteq> ''object_type_schemas'' \<and> k \<noteq> ''relationship_type_schemas'') d"
    by (elim exE conjE)
  have C1: "files w' outp = Some (JsonDoc (PyDict d'))" using C B by simp
  have C2: "\<forall>p. p \<noteq> outp \<longrightarrow> files w' p = files w p" using C by simp
  from A B C1 C2 K F show ?thesis
    by - (rule exI [of _ d], rule exI [of _ d'], intro conjI, assumption+)
qed

theorem convert_pack_frame_witness:
  "fst (convert_pack in_json out_json
      (world_with (PyDict [(''name'', PyStr ''P''),
        (''object_type_schemas'', PyDict [(''Person'', PyDict [(''label'', PyStr ''Person'')])]),
        (''extra'', PyList [PyInt 1])]))) =
     Inr (PyDict [(''name'', PyStr ''P''),
        (''object_type_schemas'', PyList [PyDict [(''name'', PyStr ''Person''), (''label'', PyStr ''Person'')]]),
        (''extra'', PyList [PyInt 1]),
        (''relationship_type_schemas'', PyList [])]) \<and>
   (\<exists>d d'.
      files (world_with (PyDict [(''name'', PyStr ''P''),
        (''object_type_schemas'', PyDict [(''Person'', PyDict [(''label'', PyStr ''Person'')])]),
        (''extra'', PyList [PyInt 1])])) in_json = Some (JsonDoc (PyDict d)) \<and>
      PyDict [(''name'', PyStr ''P''),
        (''object_type_schemas'', PyList [PyDict [(''name'', PyStr ''Person''), (''label'', PyStr ''Person'')]]),
        (''extra'', PyList [PyInt 1]),
        (''relationship_type_schemas'', PyList [])] = PyDict d' \<and>
      files (snd (convert_pack in_json out_json
        (world_with (PyDict [(''name'', PyStr ''P''),
          (''object_type_schemas'', PyDict [(''Person'', PyDict [(''label'', PyStr ''Person'')])]),
          (''extra'', PyList [PyInt 1])])))) out_json = Some (JsonDoc (PyDict d')) \<and>
      (\<forall>p. p \<noteq> out_json \<longrightarrow>
         files (snd (convert_pack in_json out_json
           (world_with (PyDict [(''name'', PyStr ''P''),
             (''object_type_schemas'', PyDict [(''Person'', PyDict [(''label'', PyStr ''Person'')])]),
             (''extra'', PyList [PyInt 1])])))) p =
         files (world_with (PyDict [(''name'', PyStr ''P''),
             (''object_type_schemas'', PyDict [(''Person'', PyDict [(''label'', PyStr ''Person'')])]),
             (''extra'', PyList [PyInt 1])])) p) \<and>
      (\<forall>k. k \<noteq> ''object_type_schemas'' \<and> k \<noteq> ''relationship_type_schemas'' \<longrightarrow>
           map_of d' k = map_of d k) \<and>
      filter (\<lambda>(k, v). k \<noteq> ''object_type_schemas'' \<and> k \<noteq> ''relationship_type_schemas'') d' =
        filter (\<lambda>(k, v). k \<noteq> ''object_type_schemas'' \<and> k \<noteq> ''relationship_type_schemas'') d)"
proof -
  let ?doc = "PyDict [(''name'', PyStr ''P''),
        (''object_type_schemas'', PyDict [(''Person'', PyDict [(''label'', PyStr ''Person'')])]),
        (''extra'', PyList [PyInt 1])]"
  let ?pack = "PyDict [(''name'', PyStr ''P''),
        (''object_type_schemas'', PyList [PyDict [(''name'', PyStr ''Person''), (''label'', PyStr ''Person'')]]),
        (''extra'', PyList [PyInt 1]),
        (''relationship_type_schemas'', PyList [])]"
  have f: "fst (convert_pack in_json out_json (world_with ?doc)) = Inr ?pack"
    by (simp add: run_defs example_defs)
  show ?thesis
    by (rule conjI [OF f convert_pack_frame [OF run_pair [OF f]]])
qed

text \<open>
  Claim C5. When \<open>object_type_schemas\<close> (or \<open>relationship_type_schemas\<close>) is absent
  from the document, or is the empty mapping, the pack that \<open>convert_pack\<close> returns and
  writes has the empty list in that field.
\<close>

theorem convert_pack_absent_or_empty:
  assumes "convert_pack inp outp w = (Inr pack', w')"
    and "files w inp = Some (JsonDoc (PyDict d))"
    and "key = ''object_type_schemas'' \<or> key = ''relationship_type_schemas''"
    and "map_of d key = None \<or> map_of d key = Some (PyDict [])"
  shows "py_getitem pack' key = Inr (PyList []) \<and> files w' outp = Some (JsonDoc pack')"
proof -
  from convert_pack_fields [OF assms(1)] obtain d0 d' where
    A: "files w inp = Some (JsonDoc (PyDict d0))" and
    B: "pack' = PyDict d'" and
    C: "files w' = (files w)(outp \<mapsto> JsonDoc pack')" and
    O: "case map_of d0 ''object_type_schemas'' of
          None \<Rightarrow> map_of d' ''object_type_schemas'' = Some (PyList [])
        | Some v \<Rightarrow>
            if isinstance_dict v
            then \<exists>c. convert_object_schemas v = Inr c \<and> map_of d' ''object_type_schemas'' = Some c
            else map_of d' ''object_type_schemas'' = Some v" and
    R: "case map_of d0 ''relationship_type_schemas'' of
          None \<Rightarrow> map_of d' ''relationship_type_schemas'' = Some (PyList [])
        | Some v \<Rightarrow>
            if isinstance_dict v
            then \<exists>c. convert_relationship_schemas v = Inr c \<and>
                   map_of d' ''relationship_type_schemas'' = Some c
            else map_of d' ''relationship_type_schemas'' = Some v"
    by (elim exE conjE)
  from A assms(2) have d0: "d0 = d" by simp
  have e1: "convert_object_schemas (PyDict []) = Inr (PyList [])"
    by (simp add: convert_object_schemas_def)
  have e2: "convert_relationship_schemas (PyDict []) = Inr (PyList [])"
    by (simp add: convert_relationship_schemas_def)
  have "map_of d' key = Some (PyList [])"
  proof (cases "key = ''object_type_schemas''")
    case True
    with assms(4) O e1 show ?thesis unfolding d0 by auto
  next
    case False
    with assms(3) have "key = ''relationship_type_schemas''" by simp
    with assms(4) R e2 show ?thesis unfolding d0 by auto
  qed
  with B C show ?thesis by simp
qed

theorem convert_pack_absent_or_empty_witness:
  "fst (convert_pack in_json out_json
      (world_with (PyDict [(''name'', PyStr ''P''), (''relationship_type_schemas'', PyDict [])]))) =
     Inr (PyDict [(''name'', PyStr ''P''), (''relationship_type_schemas'', PyList []),
        (''object_type_schemas'', PyList [])]) \<and>
   py_getitem (PyDict [(''name'', PyStr ''P''), (''relationship_type_schemas'', PyList []),
        (''object_type_schemas'', PyList [])]) ''object_type_schemas'' = Inr (PyList []) \<and>
   py_getitem (PyDict [(''name'', PyStr ''P''), (''relationship_type_schemas'', PyList []),
        (''object_type_schemas'', PyList [])]) ''relationship_type_schemas'' = Inr (PyList []) \<and>
   files (snd (convert_pack in_json out_json
      (world_with (PyDict [(''name'', PyStr ''P''), (''relationship_type_schemas'', PyDict [])]))))
     out_json =
     Some (JsonDoc (PyDict [(''name'', PyStr ''P''), (''relationship_type_schemas'', PyList []),
        (''object_type_schemas'', PyList [])]))"
proof -
  let ?d = "[(''name'', PyStr ''P''), (''relationship_type_schemas'', PyDict [])]"
  let ?pack = "PyDict [(''name'', PyStr ''P''), (''relationship_type_schemas'', PyList []),
        (''object_type_schemas'', PyList [])]"
  have f: "fst (convert_pack in_json out_json (world_with (PyDict ?d))) = Inr ?pack"
    by (simp add: run_defs example_defs)
  have h2: "files (world_with (PyDict ?d)) in_json = Some (JsonDoc (PyDict ?d))"
    by (simp add: example_defs)
  have k1: "''object_type_schemas'' = ''object_type_schemas'' \<or>
      ''object_type_schemas'' = ''relationship_type_schemas''" by simp
  have k2: "''relationship_type_schemas'' = ''object_type_schemas'' \<or>
      ''relationship_type_schemas'' = ''relationship_type_schemas''" by simp
  have a1: "map_of ?d ''object_type_schemas'' = None \<or>
      map_of ?d ''object_type_schemas'' = Some (PyDict [])" by simp
  have a2: "map_of ?d ''relationship_type_schemas'' = None \<or>
      map_of ?d ''relationship_type_schemas'' = Some (PyDict [])" by simp
  note t1 = convert_pack_absent_or_empty [OF run_pair [OF f] h2 k1 a1]
  note t2 = convert_pack_absent_or_empty [OF run_pair [OF f] h2 k2 a2]
  from f t1 t2 show ?thesis by simp
qed

text \<open>
  Claim C10. When \<open>object_type_schemas\<close> (or \<open>relationship_type_schemas\<close>) is present
  with a value that is not a mapping, whatever it is, the stage for that field prints
  the "already in array format" notice and leaves the pack as it is, and the pack that
  \<open>convert_pack\<close> returns and writes still has that value in the field.
\<close>

theorem convert_pack_non_mapping_untouched:
  assumes "map_of d key = Some v" and "\<not> isinstance_dict v"
  shows "(key = ''object_type_schemas'' \<longrightarrow>
            convert_object_field (PyDict d) w =
              (Inr (PyDict d), w\<lparr>stdout := stdout w @
                 [[Lit ''Converting object_type_schemas...''],
                  [Lit ''  Already in array format, skipping'']]\<rparr>)) \<and>
         (key = ''relationship_type_schemas'' \<longrightarrow>
            convert_relationship_field (PyDict d) w =
              (Inr (PyDict d), w\<lparr>stdout := stdout w @
                 [[Lit ''Converting relationship_type_schemas...''],
                  [Lit ''  Already in array format, skipping'']]\<rparr>)) \<and>
         ((key = ''object_type_schemas'' \<or> key = ''relationship_type_schemas'') \<and>
          files w inp = Some (JsonDoc (PyDict d)) \<and>
          convert_pack inp outp w = (Inr pack', w') \<longrightarrow>
            py_getitem pack' key = Inr v \<and> files w' outp = Some (JsonDoc pack'))"
proof (intro conjI impI)
  assume "key = ''object_type_schemas''"
  with assms show "convert_object_field (PyDict d) w =
      (Inr (PyDict d), w\<lparr>stdout := stdout w @
         [[Lit ''Converting object_type_schemas...''],
          [Lit ''  Already in array format, skipping'']]\<rparr>)"
    by (simp add: convert_object_field_skip)
next
  assume "key = ''relationship_type_schemas''"
  with assms show "convert_relationship_field (PyDict d) w =
      (Inr (PyDict d), w\<lparr>stdout := stdout w @
         [[Lit ''Converting relationship_type_schemas...''],
          [Lit ''  Already in array format, skipping'']]\<rparr>)"
    by (simp add: convert_relationship_field_skip)
next
  assume H: "(key = ''object_type_schemas'' \<or> key = ''relationship_type_schemas'') \<and>
          files w inp = Some (JsonDoc (PyDict d)) \<and>
          convert_pack inp outp w = (Inr pack', w')"
  then have run: "convert_pack inp outp w = (Inr pack', w')" by simp
  from convert_pack_fields [OF run] obtain d0 d' where
    A: "files w inp = Some (JsonDoc (PyDict d0))" and
    B: "pack' = PyDict d'" and
    C: "files w' = (files w)(outp \<mapsto> JsonDoc pack')" and
    O: "case map_of d0 ''object_type_schemas'' of
          None \<Rightarrow> map_of d' ''object_type_schemas'' = Some (PyList [])
        | Some v \<Rightarrow>
            if isinstance_dict v
            then \<exists>c. convert_object_schemas v = Inr c \<and> map_of d' ''object_type_schemas'' = Some c
            else map_of d' ''object_type_schemas'' = Some v" and
    R: "case map_of d0 ''relationship_type_schemas'' of
          None \<Rightarrow> map_of d' ''relationship_type_schemas'' = Some (PyList [])
        | Some v \<Rightarrow>
            if isinstance_dict v
            then \<exists>c. convert_relationship_schemas v = Inr c \<and>
                   map_of d' ''relationship_type_schemas'' = Some c
            else map_of d' ''relationship_type_schemas'' = Some v"
    by (elim exE conjE)
  from A H have d0: "d0 = d" by simp
  have "map_of d' key = Some v"
  proof (cases "key = ''object_type_schemas''")
    case True
    with assms O show ?thesis unfolding d0 by auto
  next
    case False
    with H have "key = ''relationship_type_schemas''" by simp
    with assms R show ?thesis unfolding d0 by auto
  qed
  with B C show "py_getitem pack' key = Inr v" and "files w' outp = Some (JsonDoc pack')"
    by simp_all
qed

theorem convert_pack_non_mapping_untouched_witness:
  "fst (convert_pack in_json out_json
      (world_with (PyDict [(''object_type_schemas'', PyNone),
        (''relationship_type_schemas'', PyStr ''x'')]))) =
     Inr (PyDict [(''object_type_schemas'', PyNone), (''relationship_type_schemas'', PyStr ''x'')]) \<and>
   py_getitem (PyDict [(''object_type_schemas'', PyNone), (''relationship_type_schemas'', PyStr ''x'')])
     ''object_type_schemas'' = Inr PyNone \<and>
   py_getitem (PyDict [(''object_type_schemas'', PyNone), (''relationship_type_schemas'', PyStr ''x'')])
     ''relationship_type_schemas'' = Inr (PyStr ''x'') \<and>
   files (snd (convert_pack in_json out_json
      (world_with (PyDict [(''object_type_schemas'', PyNone),
        (''relationship_type_schemas'', PyStr ''x'')])))) out_json =
     Some (JsonDoc (PyDict [(''object_type_schemas'', PyNone),
        (''relationship_type_schemas'', PyStr ''x'')]))"
proof -
  let ?d = "[(''object_type_schemas'', PyNone), (''relationship_type_schemas'', PyStr ''x'')]"
  let ?w = "world_with (PyDict ?d)"
  have f: "fst (convert_pack in_json out_json ?w) = Inr (PyDict ?d)"
    by (simp add: run_defs example_defs)
  have h: "files ?w in_json = Some (JsonDoc (PyDict ?d))"
    by (simp add: example_defs)
  have o1: "map_of ?d ''object_type_schemas'' = Some PyNone" by simp
  have o2: "\<not> isinstance_dict PyNone" by simp
  have r1: "map_of ?d ''relationship_type_schemas'' = Some (PyStr ''x'')" by simp
  have r2: "\<not> isinstance_dict (PyStr ''x'')" by simp
  note t1 = convert_pack_non_mapping_untouched [OF o1 o2, of ?w in_json out_json "PyDict ?d"
      "snd (convert_pack in_json out_json ?w)"]
  note t2 = convert_pack_non_mapping_untouched [OF r1 r2, of ?w in_json out_json "PyDict ?d"
      "snd (convert_pack in_json out_json ?w)"]
  from f h run_pair [OF f] t1 t2 show ?thesis by simp
qed

section \<open>The claims about \<open>main\<close>\<close>

text \<open>
  Claim C7. With no input argument \<open>main\<close> prints the usage line, and with an input
  path that does not exist it prints the error line naming that path; in both cases it
  ends with \<open>sys.exit(1)\<close>, exit status 1, and the world differs from the initial
  one only by that printed line: no file is created or changed.
\<close>

theorem main_missing_input:
  "(length argv < 2 \<longrightarrow>
      main argv w =
        (Inl (SystemExit 1),
         w\<lparr>stdout := stdout w @
           [[Lit ''Usage: convert-pack-format.py <input.json> [output.json]'']]\<rparr>)) \<and>
   (2 \<le> length argv \<and> files w (Path (argv ! 1)) = None \<longrightarrow>
      main argv w =
        (Inl (SystemExit 1),
         w\<lparr>stdout := stdout w @
           [[Lit ''Error: '', PathF (Path (argv ! 1)), Lit '' not found'']]\<rparr>)) \<and>
   exit_status (Inl (SystemExit 1)) = 1"
  by (simp add: main_def Let_def io_defs path_exists_def)

theorem main_missing_input_witness:
  "main [''convert-pack-format.py''] (world_with (PyDict [])) =
     (Inl (SystemExit 1),
      (world_with (PyDict []))\<lparr>stdout :=
         [[Lit ''Usage: convert-pack-format.py <input.json> [output.json]'']]\<rparr>) \<and>
   main [''convert-pack-format.py'', ''out.json''] (world_with (PyDict [])) =
     (Inl (SystemExit 1),
      (world_with (PyDict []))\<lparr>stdout := [[Lit ''Error: '', PathF out_json, Lit '' not found'']]\<rparr>) \<and>
   files (snd (main [''convert-pack-format.py'', ''out.json''] (world_with (PyDict [])))) =
     files (world_with (PyDict []))"
proof -
  let ?w = "world_with (PyDict [])"
  have h1: "length [''convert-pack-format.py''] < 2" by simp
  have h2: "2 \<le> length [''convert-pack-format.py'', ''out.json''] \<and>
      files ?w (Path ([''convert-pack-format.py'', ''out.json''] ! 1)) = None"
    by (simp add: Path_out_json example_defs)
  note t1 = main_missing_input [of "[''convert-pack-format.py'']" ?w, THEN conjunct1, THEN mp, OF h1]
  note t2 = main_missing_input [of "[''convert-pack-format.py'', ''out.json'']" ?w,
      THEN conjunct2, THEN conjunct1, THEN mp, OF h2]
  from t1 t2 show ?thesis by (simp add: Path_out_json world_with_def)
qed

text \<open>
  Claim C8, as amended. When the command line gives no output path, the output file
  name is the input's stem followed by \<open>-converted.json\<close>, whatever the input's own
  suffix, in the same directory as the input. It agrees with "stem, \<open>-converted\<close>,
  suffix" when the input's suffix is \<open>.json\<close>. With one argument naming an existing
  path, \<open>main\<close> runs \<open>convert_pack\<close> with that output path.
\<close>

theorem default_output_path_name:
  "path_name (default_output_path (Path s)) = path_stem (Path s) @ ''-converted.json'' \<and>
   path_parent (default_output_path (Path s)) = path_parent (Path s) \<and>
   (path_suffix (Path s) = ''.json'' \<longrightarrow>
      path_name (default_output_path (Path s)) =
        path_stem (Path s) @ ''-converted'' @ path_suffix (Path s)) \<and>
   (length argv = 2 \<and> files w (Path (argv ! 1)) \<noteq> None \<longrightarrow>
      main argv w =
        io_bind (convert_pack (Path (argv ! 1)) (default_output_path (Path (argv ! 1)))) validation
          (w :: world))"
proof (intro conjI impI)
  show n: "path_name (default_output_path (Path s)) = path_stem (Path s) @ ''-converted.json''"
    by (simp add: default_output_path_eq path_name_def)
  show "path_parent (default_output_path (Path s)) = path_parent (Path s)"
    by (simp add: default_output_path_eq path_parent_def)
  show "path_name (default_output_path (Path s)) =
        path_stem (Path s) @ ''-converted'' @ path_suffix (Path s)"
    if "path_suffix (Path s) = ''.json''"
    using that n by simp
  show "main argv w =
        io_bind (convert_pack (Path (argv ! 1)) (default_output_path (Path (argv ! 1)))) validation w"
    if "length argv = 2 \<and> files w (Path (argv ! 1)) \<noteq> None"
    using that by (simp add: main_def Let_def io_bind_def path_exists_def)
qed

theorem default_output_path_name_witness:
  "path_suffix (Path ''in.json'') = ''.json'' \<and>
   path_name (default_output_path (Path ''in.json'')) = ''in-converted.json'' \<and>
   fst (main [''convert-pack-format.py'', ''in.json'']
      (world_with (PyDict [(''name'', PyStr ''P''), (''version'', PyStr ''1'')]))) = Inr () \<and>
   files (snd (main [''convert-pack-format.py'', ''in.json'']
      (world_with (PyDict [(''name'', PyStr ''P''), (''version'', PyStr ''1'')]))))
     \<lparr>path_root = [], path_parts = [''in-converted.json'']\<rparr> =
     Some (JsonDoc (PyDict [(''name'', PyStr ''P''), (''version'', PyStr ''1''),
        (''object_type_schemas'', PyList []), (''relationship_type_schemas'', PyList [])]))"
proof -
  let ?w = "world_with (PyDict [(''name'', PyStr ''P''), (''version'', PyStr ''1'')])"
  let ?argv = "[''convert-pack-format.py'', ''in.json'']"
  note t = default_output_path_name [of "''in.json''" ?argv ?w]
  have s: "path_suffix (Path ''in.json'') = ''.json''" by (simp add: path_defs)
  have p: "path_stem (Path ''in.json'') = ''in''" by (simp add: path_defs)
  have d: "default_output_path (Path ''in.json'') =
      \<lparr>path_root = [], path_parts = [''in-converted.json'']\<rparr>"
    by (simp add: path_defs)
  have h: "length ?argv = 2 \<and> files ?w (Path (?argv ! 1)) \<noteq> None"
    by (simp add: Path_in_json example_defs)
  note n = t [THEN conjunct1]
  note m = t [THEN conjunct2, THEN conjunct2, THEN conjunct2, THEN mp, OF h]
  have m': "main ?argv ?w = io_bind (convert_pack in_json
      \<lparr>path_root = [], path_parts = [''in-converted.json'']\<rparr>) validation ?w"
    using m by (simp add: Path_in_json d [unfolded Path_in_json])
  have r: "io_bind (convert_pack in_json \<lparr>path_root = [], path_parts = [''in-converted.json'']\<rparr>)
      validation ?w =
     (Inr (), \<lparr>files = [in_json \<mapsto> JsonDoc (PyDict [(''name'', PyStr ''P''), (''version'', PyStr ''1'')]),
        \<lparr>path_root = [], path_parts = [''in-converted.json'']\<rparr> \<mapsto>
          JsonDoc (PyDict [(''name'', PyStr ''P''), (''version'', PyStr ''1''),
            (''object_type_schemas'', PyList []), (''relationship_type_schemas'', PyList [])])],
       writable = (\<lambda>p. True),
       write_error = (\<lambda>p. FileNotFoundError),
       stdout = [[Lit ''Reading '', PathF in_json, Lit ''...''],
          [Lit ''Converting object_type_schemas...''],
          [Lit ''  Converted '', Num 0, Lit '' object types''],
          [Lit ''Converting relationship_type_schemas...''],
          [Lit ''  Converted '', Num 0, Lit '' relationship types''],
          [Lit ''Writing '', PathF \<lparr>path_root = [], path_parts = [''in-converted.json'']\<rparr>, Lit ''...''],
          [Lit (check_mark @ '' Conversion complete'')],
          [Lit (CHR 0x0A # ''Validation:'')],
          [Lit ''  Name: '', Val (PyStr ''P'')],
          [Lit ''  Version: '', Val (PyStr ''1'')],
          [Lit ''  Object types: '', Num 0],
          [Lit ''  Relationship types: '', Num 0]]\<rparr>)"
    by (simp add: run_defs validation_def example_defs)
  from s n p m' r show ?thesis by simp
qed

text \<open>
  Claim C8 as stated fails for an input whose suffix is not \<open>.json\<close>: for
  \<open>pack.yaml\<close> the default output name is \<open>pack-converted.json\<close>, not
  \<open>pack-converted.yaml\<close>.
\<close>

theorem default_output_path_name_counterexample:
  "path_name (default_output_path (Path ''pack.yaml'')) \<noteq>
     path_stem (Path ''pack.yaml'') @ ''-converted'' @ path_suffix (Path ''pack.yaml'') \<and>
   path_name (default_output_path (Path ''pack.yaml'')) = ''pack-converted.json'' \<and>
   path_stem (Path ''pack.yaml'') @ ''-converted'' @ path_suffix (Path ''pack.yaml'') =
     ''pack-converted.yaml''"
  by (simp add: path_defs)

text \<open>
  Claim C9, as amended. When \<open>convert_pack\<close> has returned the converted pack and that
  pack lacks \<open>name\<close> or \<open>version\<close>, \<open>main\<close> ends with an uncaught exception, exit
  status 1, raised by the summary, and the files are as \<open>convert_pack\<close> left them: the
  output path holds the converted pack. The exception is the \<open>KeyError\<close> of the missing
  field, unless \<open>name\<close> is present as a string that standard output cannot encode:
  then printing the name line raises \<open>UnicodeEncodeError\<close> before \<open>version\<close> is read.
  The two collections are always present after a conversion, so \<open>name\<close> and \<open>version\<close>
  are the only fields that can be lacking.
\<close>

theorem main_writes_before_summary:
  assumes "2 \<le> length argv"
    and "output_path =
      (if 2 < length argv then Path (argv ! 2) else default_output_path (Path (argv ! 1)))"
    and "convert_pack (Path (argv ! 1)) output_path w = (Inr converted, w')"
    and "py_getitem converted ''name'' = Inl KeyError \<or>
         py_getitem converted ''version'' = Inl KeyError"
  shows "fst (main argv w) =
           (case py_getitem converted ''name'' of
              Inl e \<Rightarrow> Inl KeyError
            | Inr v \<Rightarrow> if encodable (Val v) then Inl KeyError else Inl UnicodeEncodeError) \<and>
         exit_status (fst (main argv w)) = 1 \<and>
         files (snd (main argv w)) = files w' \<and>
         files w' output_path = Some (JsonDoc converted) \<and>
         (\<exists>v. py_getitem converted ''object_type_schemas'' = Inr v) \<and>
         (\<exists>v. py_getitem converted ''relationship_type_schemas'' = Inr v)"
proof -
  from convert_pack_fields [OF assms(3)] obtain d d' where
    A: "files w (Path (argv ! 1)) = Some (JsonDoc (PyDict d))" and
    B: "converted = PyDict d'" and
    C: "files w' = (files w)(output_path \<mapsto> JsonDoc converted)" and
    O: "case map_of d ''object_type_schemas'' of
          None \<Rightarrow> map_of d' ''object_type_schemas'' = Some (PyList [])
        | Some v \<Rightarrow>
            if isinstance_dict v
            then \<exists>c. convert_object_schemas v = Inr c \<and> map_of d' ''object_type_schemas'' = Some c
            else map_of d' ''object_type_schemas'' = Some v" and
    R: "case map_of d ''relationship_type_schemas'' of
          None \<Rightarrow> map_of d' ''relationship_type_schemas'' = Some (PyList [])
        | Some v \<Rightarrow>
            if isinstance_dict v
            then \<exists>c. convert_relationship_schemas v = Inr c \<and>
                   map_of d' ''relationship_type_schemas'' = Some c
            else map_of d' ''relationship_type_schemas'' = Some v"
    by (elim exE conjE)
  have m: "main argv w = validation converted w'"
  proof (cases "2 < length argv")
    case True
    with assms(1,2,3) A show ?thesis
      by (simp add: main_def Let_def io_bind_def path_exists_def)
  next
    case False
    with assms(1,2,3) A show ?thesis
      by (simp add: main_def Let_def io_bind_def path_exists_def)
  qed
  note v = validation_missing [OF assms(4) [unfolded B], of w']
  have 1: "fst (main argv w) =
      (case py_getitem converted ''name'' of
         Inl e \<Rightarrow> Inl KeyError
       | Inr v \<Rightarrow> if encodable (Val v) then Inl KeyError else Inl UnicodeEncodeError)"
    unfolding m B by (rule v [THEN conjunct1])
  have "fst (main argv w) = Inl KeyError \<or> fst (main argv w) = Inl UnicodeEncodeError"
    unfolding 1 by (simp split: sum.splits)
  then have 2: "exit_status (fst (main argv w)) = 1" by auto
  have 3: "files (snd (main argv w)) = files w'"
    unfolding m B by (rule v [THEN conjunct2])
  have 4: "files w' output_path = Some (JsonDoc converted)" using C by simp
  have 5: "\<exists>v. py_getitem converted ''object_type_schemas'' = Inr v"
    using O B by (cases "map_of d ''object_type_schemas''") (auto split: if_splits)
  have 6: "\<exists>v. py_getitem converted ''relationship_type_schemas'' = Inr v"
    using R B by (cases "map_of d ''relationship_type_schemas''") (auto split: if_splits)
  from 1 2 3 4 5 6 show ?thesis by (intro conjI)
qed

theorem main_writes_before_summary_witness:
  "fst (convert_pack in_json out_json (world_with (PyDict [(''name'', PyStr ''P'')]))) =
     Inr (PyDict [(''name'', PyStr ''P''), (''object_type_schemas'', PyList []),
        (''relationship_type_schemas'', PyList [])]) \<and>
   py_getitem (PyDict [(''name'', PyStr ''P''), (''object_type_schemas'', PyList []),
        (''relationship_type_schemas'', PyList [])]) ''version'' = Inl KeyError \<and>
   fst (main [''convert-pack-format.py'', ''in.json'', ''out.json'']
      (world_with (PyDict [(''name'', PyStr ''P'')]))) = Inl KeyError \<and>
   exit_status (fst (main [''convert-pack-format.py'', ''in.json'', ''out.json'']
      (world_with (PyDict [(''name'', PyStr ''P'')])))) = 1 \<and>
   files (snd (main [''convert-pack-format.py'', ''in.json'', ''out.json'']
      (world_with (PyDict [(''name'', PyStr ''P'')])))) out_json =
     Some (JsonDoc (PyDict [(''name'', PyStr ''P''), (''object_type_schemas'', PyList []),
        (''relationship_type_schemas'', PyList [])]))"
proof -
  let ?w = "world_with (PyDict [(''name'', PyStr ''P'')])"
  let ?argv = "[''convert-pack-format.py'', ''in.json'', ''out.json'']"
  let ?pack = "PyDict [(''name'', PyStr ''P''), (''object_type_schemas'', PyList []),
        (''relationship_type_schemas'', PyList [])]"
  have f: "fst (convert_pack in_json out_json ?w) = Inr ?pack"
    by (simp add: run_defs example_defs)
  have h1: "2 \<le> length ?argv" by simp
  have h2: "out_json =
      (if 2 < length ?argv then Path (?argv ! 2) else default_output_path (Path (?argv ! 1)))"
    by (simp add: Path_out_json)
  have p: "Path (?argv ! 1) = in_json" by (simp add: Path_in_json)
  have h3: "convert_pack (Path (?argv ! 1)) out_json ?w =
      (Inr ?pack, snd (convert_pack in_json out_json ?w))"
    unfolding p by (rule run_pair [OF f])
  have h4: "py_getitem ?pack ''name'' = Inl KeyError \<or> py_getitem ?pack ''version'' = Inl KeyError"
    by simp
  note t = main_writes_before_summary [OF h1 h2 h3 h4]
  have k: "py_getitem ?pack ''version'' = Inl KeyError" by simp
  from f k t show ?thesis by simp
qed

text \<open>
  Claim C9 as stated fails: the document \<open>{"name": "\ud800"}\<close> lacks \<open>version\<close>, and
  after the write the run ends with \<open>UnicodeEncodeError\<close> from printing the name, not
  with the \<open>KeyError\<close> of the missing field.
\<close>

theorem main_writes_before_summary_counterexample:
  "fst (convert_pack in_json out_json
      (world_with (PyDict [(''name'', PyStr [CHR 0xED, CHR 0xA0, CHR 0x80])]))) =
     Inr (PyDict [(''name'', PyStr [CHR 0xED, CHR 0xA0, CHR 0x80]),
        (''object_type_schemas'', PyList []), (''relationship_type_schemas'', PyList [])]) \<and>
   py_getitem (PyDict [(''name'', PyStr [CHR 0xED, CHR 0xA0, CHR 0x80]),
        (''object_type_schemas'', PyList []), (''relationship_type_schemas'', PyList [])])
     ''version'' = Inl KeyError \<and>
   fst (main [''convert-pack-format.py'', ''in.json'', ''out.json'']
      (world_with (PyDict [(''name'', PyStr [CHR 0xED, CHR 0xA0, CHR 0x80])]))) =
     Inl UnicodeEncodeError \<and>
   fst (main [''convert-pack-format.py'', ''in.json'', ''out.json'']
      (world_with (PyDict [(''name'', PyStr [CHR 0xED, CHR 0xA0, CHR 0x80])]))) \<noteq>
     Inl KeyError \<and>
   files (snd (main [''convert-pack-format.py'', ''in.json'', ''out.json'']
      (world_with (PyDict [(''name'', PyStr [CHR 0xED, CHR 0xA0, CHR 0x80])])))) out_json =
     Some (JsonDoc (PyDict [(''name'', PyStr [CHR 0xED, CHR 0xA0, CHR 0x80]),
        (''object_type_schemas'', PyList []), (''relationship_type_schemas'', PyList [])]))"
  by (simp add: main_def validation_def path_exists_def Let_def run_defs example_defs
      Path_in_json [unfolded in_json_def] Path_out_json [unfolded out_json_def])

end
